theory Spec2Isabelle
  imports Main
begin

section \<open>The text buffer consumed by the widget\<close>

text \<open>
  \<^verbatim>\<open>NemeTextWidget\<close> (src/nemetextwidget.py) subclasses the QScintilla editing
  component and drives it through \<^verbatim>\<open>SendScintilla\<close> messages and QsciScintilla
  methods.  The component is an external library; the part of its documented behaviour
  that the widget's commands rely on is written out here over a flat document string
  with \<^verbatim>\<open>\n\<close> line ends, a caret and an anchor (the selection lies between them),
  the read-only flag, the caret style and an undo history of content snapshots.
  Characters are single bytes, line ends are a single \<^verbatim>\<open>\n\<close>, lines are not wrapped.
\<close>

record textbuf =
  content :: string
  caret :: nat
  anchor :: nat
  readOnly :: bool
  caretStyle :: nat
  undoLog :: "string list"
  undoDepth :: nat
  groupDirty :: bool

definition newline :: char where
  "newline = CHR 0x0A"

text \<open>The lines of a document, each with its line end; the last line has none and may be
  empty, so a document always has at least one line.\<close>

fun split_lines :: "string \<Rightarrow> string list" where
  "split_lines [] = [[]]"
| "split_lines (c # cs) =
     (if c = newline then [c] # split_lines cs
      else (case split_lines cs of [] \<Rightarrow> [[c]] | l # ls \<Rightarrow> (c # l) # ls))"

text \<open>\<^verbatim>\<open>lines()\<close>: SCI_GETLINECOUNT.\<close>

definition lines :: "textbuf \<Rightarrow> nat" where
  "lines b = length (split_lines (content b))"

text \<open>\<^verbatim>\<open>text(line)\<close>: the line with its line end, the empty string out of range.\<close>

definition text_line :: "textbuf \<Rightarrow> nat \<Rightarrow> string" where
  "text_line b l = (if l < lines b then split_lines (content b) ! l else [])"

text \<open>\<^verbatim>\<open>lineLength(line)\<close>: the length with the line end, -1 out of range.\<close>

definition lineLength :: "textbuf \<Rightarrow> nat \<Rightarrow> int" where
  "lineLength b l = (if l < lines b then int (length (split_lines (content b) ! l)) else - 1)"

text \<open>SCI_POSITIONFROMLINE: the position behind the \<open>l\<close>-th line end; a line past the
  last one is mapped to the document's end.\<close>

fun line_start :: "string \<Rightarrow> nat \<Rightarrow> nat" where
  "line_start s 0 = 0"
| "line_start [] (Suc l) = 0"
| "line_start (c # cs) (Suc l) =
     Suc (if c = newline then line_start cs l else line_start cs (Suc l))"

text \<open>SCI_LINEFROMPOSITION: the number of line ends before the position.\<close>

definition line_of :: "string \<Rightarrow> nat \<Rightarrow> nat" where
  "line_of s p = length (filter (\<lambda>c. c = newline) (take p s))"

text \<open>\<^verbatim>\<open>positionFromLineIndex\<close>: start of the line, then \<^verbatim>\<open>index\<close> steps of
  SCI_POSITIONAFTER, which stop at the end of the document (and do not stop at the end
  of the line).\<close>

definition positionFromLineIndex :: "textbuf \<Rightarrow> nat \<Rightarrow> nat \<Rightarrow> nat" where
  "positionFromLineIndex b l i = min (line_start (content b) l + i) (length (content b))"

definition lineIndexFromPosition :: "textbuf \<Rightarrow> nat \<Rightarrow> nat \<times> nat" where
  "lineIndexFromPosition b p =
     (let l = line_of (content b) p in (l, p - line_start (content b) l))"

definition getCursorPosition :: "textbuf \<Rightarrow> nat \<times> nat" where
  "getCursorPosition b = lineIndexFromPosition b (caret b)"

text \<open>SCI_GOTOPOS: caret and anchor at the position, clamped to the document.\<close>

definition sci_GOTOPOS :: "int \<Rightarrow> textbuf \<Rightarrow> textbuf" where
  "sci_GOTOPOS p b =
     (let q = min (nat p) (length (content b)) in b\<lparr>caret := q, anchor := q\<rparr>)"

definition setCursorPosition :: "nat \<Rightarrow> nat \<Rightarrow> textbuf \<Rightarrow> textbuf" where
  "setCursorPosition l i b = sci_GOTOPOS (int (positionFromLineIndex b l i)) b"

text \<open>\<^verbatim>\<open>setSelection\<close>: SCI_SETSEL with the anchor at the first position and the caret at
  the second.\<close>

definition setSelection :: "nat \<Rightarrow> nat \<Rightarrow> nat \<Rightarrow> nat \<Rightarrow> textbuf \<Rightarrow> textbuf" where
  "setSelection lf xf lt xt b =
     b\<lparr>anchor := positionFromLineIndex b lf xf, caret := positionFromLineIndex b lt xt\<rparr>"

definition setReadOnly :: "bool \<Rightarrow> textbuf \<Rightarrow> textbuf" where
  "setReadOnly ro b = b\<lparr>readOnly := ro\<rparr>"

definition sci_SETCARETSTYLE :: "nat \<Rightarrow> textbuf \<Rightarrow> textbuf" where
  "sci_SETCARETSTYLE n b = b\<lparr>caretStyle := n\<rparr>"

subsection \<open>Undo history\<close>

text \<open>
  \<^verbatim>\<open>beginUndoAction\<close> and \<^verbatim>\<open>endUndoAction\<close> nest by a counter.  A change made outside
  any group is an undo step of its own; the changes made between the outermost begin and
  its end are one step.  A step is kept as the content before it.  (The component also
  merges runs of typed characters into one step; no command below depends on that.)
\<close>

definition beginUndoAction :: "textbuf \<Rightarrow> textbuf" where
  "beginUndoAction b =
     (if undoDepth b = 0 then b\<lparr>undoDepth := 1, groupDirty := False\<rparr>
      else b\<lparr>undoDepth := Suc (undoDepth b)\<rparr>)"

definition endUndoAction :: "textbuf \<Rightarrow> textbuf" where
  "endUndoAction b = b\<lparr>undoDepth := undoDepth b - 1\<rparr>"

text \<open>Every change of the content goes through \<open>change\<close>: nothing happens on a
  read-only document; otherwise the undo step is opened if need be and the new content,
  caret and anchor are stored.\<close>

definition change :: "string \<Rightarrow> nat \<Rightarrow> nat \<Rightarrow> textbuf \<Rightarrow> textbuf" where
  "change s c a b =
     (if readOnly b then b
      else if undoDepth b = 0 then
        b\<lparr>content := s, caret := c, anchor := a, undoLog := content b # undoLog b\<rparr>
      else if groupDirty b then b\<lparr>content := s, caret := c, anchor := a\<rparr>
      else b\<lparr>content := s, caret := c, anchor := a,
             undoLog := content b # undoLog b, groupDirty := True\<rparr>)"

text \<open>\<^verbatim>\<open>undo()\<close>: back to the content before the last step.  Where the component leaves
  the caret after an undo is not modelled beyond keeping it inside the document.  The
  widget only calls it with the document made writable.\<close>

definition undo :: "textbuf \<Rightarrow> textbuf" where
  "undo b =
     (if readOnly b then b
      else (case undoLog b of
              [] \<Rightarrow> b
            | s # ss \<Rightarrow> b\<lparr>content := s, caret := min (caret b) (length s),
                           anchor := min (caret b) (length s), undoLog := ss\<rparr>))"

subsection \<open>Editing and caret messages\<close>

text \<open>SCI_INSERTTEXT: insert at a position; the caret (and the anchor) move along only
  when they lie after the insertion point.  Inserting nothing changes nothing.\<close>

definition sci_INSERTTEXT :: "nat \<Rightarrow> string \<Rightarrow> textbuf \<Rightarrow> textbuf" where
  "sci_INSERTTEXT p t b =
     (if t = [] then b
      else change (take p (content b) @ t @ drop p (content b))
             (if p < caret b then caret b + length t else caret b)
             (if p < anchor b then anchor b + length t else anchor b) b)"

text \<open>\<^verbatim>\<open>insertAt(text, line, index)\<close>: QsciScintilla makes the document writable for
  the insertion (\<^verbatim>\<open>ensureRW\<close>), wraps it in an undo group and puts the read-only
  flag back.\<close>

definition insertAt :: "string \<Rightarrow> nat \<Rightarrow> nat \<Rightarrow> textbuf \<Rightarrow> textbuf" where
  "insertAt t l i b =
     (let ro = readOnly b;
          p = positionFromLineIndex b l i;
          b1 = beginUndoAction (setReadOnly False b);
          b2 = sci_INSERTTEXT p t b1
      in setReadOnly ro (endUndoAction b2))"

text \<open>Removing the selected range; caret and anchor end at its start.\<close>

definition clearSelection :: "textbuf \<Rightarrow> textbuf" where
  "clearSelection b =
     (let lo = min (caret b) (anchor b); hi = max (caret b) (anchor b)
      in change (take lo (content b) @ drop hi (content b)) lo lo b)"

text \<open>SCI_CLEAR: delete the selection, or with an empty selection the character at the
  caret (nothing at the end of the document).\<close>

definition sci_CLEAR :: "textbuf \<Rightarrow> textbuf" where
  "sci_CLEAR b =
     (if caret b \<noteq> anchor b then clearSelection b
      else if caret b < length (content b) then
        change (take (caret b) (content b) @ drop (Suc (caret b)) (content b))
          (caret b) (caret b) b
      else b)"

text \<open>SCI_DELETEBACK: delete the selection, or with an empty selection the character
  before the caret (nothing at the start of the document).\<close>

definition sci_DELETEBACK :: "textbuf \<Rightarrow> textbuf" where
  "sci_DELETEBACK b =
     (if caret b \<noteq> anchor b then clearSelection b
      else if 0 < caret b then
        change (take (caret b - 1) (content b) @ drop (caret b) (content b))
          (caret b - 1) (caret b - 1) b
      else b)"

text \<open>What the base class does with a key event that carries printable text: the text
  replaces the selection and the caret ends behind it.\<close>

definition insertCharacter :: "string \<Rightarrow> textbuf \<Rightarrow> textbuf" where
  "insertCharacter t b =
     (let lo = min (caret b) (anchor b); hi = max (caret b) (anchor b)
      in change (take lo (content b) @ t @ drop hi (content b))
           (lo + length t) (lo + length t) b)"

text \<open>SCI_CHARLEFT and SCI_CHARRIGHT: one position, stopping at the ends of the document;
  a non-empty selection is collapsed to its start or end instead.\<close>

definition sci_CHARLEFT :: "textbuf \<Rightarrow> textbuf" where
  "sci_CHARLEFT b =
     (if caret b = anchor b then b\<lparr>caret := caret b - 1, anchor := caret b - 1\<rparr>
      else b\<lparr>caret := min (caret b) (anchor b), anchor := min (caret b) (anchor b)\<rparr>)"

definition sci_CHARRIGHT :: "textbuf \<Rightarrow> textbuf" where
  "sci_CHARRIGHT b =
     (if caret b = anchor b then
        (let q = min (Suc (caret b)) (length (content b)) in b\<lparr>caret := q, anchor := q\<rparr>)
      else b\<lparr>caret := max (caret b) (anchor b), anchor := max (caret b) (anchor b)\<rparr>)"

text \<open>The length of a line without its line end.\<close>

definition line_width :: "string \<Rightarrow> nat \<Rightarrow> nat" where
  "line_width s l =
     (let ln = split_lines s ! l
      in if ln \<noteq> [] \<and> last ln = newline then length ln - 1 else length ln)"

text \<open>SCI_HOME and SCI_LINEEND: start of the caret's line, end of it before the line end.\<close>

definition sci_HOME :: "textbuf \<Rightarrow> textbuf" where
  "sci_HOME b =
     (let q = line_start (content b) (line_of (content b) (caret b))
      in b\<lparr>caret := q, anchor := q\<rparr>)"

definition sci_LINEEND :: "textbuf \<Rightarrow> textbuf" where
  "sci_LINEEND b =
     (let l = line_of (content b) (caret b);
          q = line_start (content b) l + line_width (content b) l
      in b\<lparr>caret := q, anchor := q\<rparr>)"

text \<open>SCI_LINEUP and SCI_LINEDOWN: the neighbouring line at the same column, or at its end
  when it is shorter (the component's memory of the wanted column over several vertical
  moves is left out).  On the first line SCI_LINEUP keeps the caret; on the last line
  SCI_LINEDOWN puts it at the end of the document.  A selection is dropped.\<close>

definition sci_LINEUP :: "textbuf \<Rightarrow> textbuf" where
  "sci_LINEUP b =
     (let (l, i) = getCursorPosition b
      in if l = 0 then b\<lparr>anchor := caret b\<rparr>
         else (let q = line_start (content b) (l - 1) + min i (line_width (content b) (l - 1))
               in b\<lparr>caret := q, anchor := q\<rparr>))"

definition sci_LINEDOWN :: "textbuf \<Rightarrow> textbuf" where
  "sci_LINEDOWN b =
     (let (l, i) = getCursorPosition b
      in if lines b \<le> Suc l then b\<lparr>caret := length (content b), anchor := length (content b)\<rparr>
         else (let q = line_start (content b) (Suc l) + min i (line_width (content b) (Suc l))
               in b\<lparr>caret := q, anchor := q\<rparr>))"

text \<open>SCI_LINEDELETE: remove the caret's line with its line end; the caret ends at the
  start of what is then that line.\<close>

definition sci_LINEDELETE :: "textbuf \<Rightarrow> textbuf" where
  "sci_LINEDELETE b =
     (let l = line_of (content b) (caret b);
          lo = line_start (content b) l;
          hi = line_start (content b) (Suc l)
      in if lo = hi then b\<lparr>caret := lo, anchor := lo\<rparr>
         else change (take lo (content b) @ drop hi (content b)) lo lo b)"

text \<open>SCI_GOTOLINE: start of the line, the last line when the number is too large.\<close>

definition sci_GOTOLINE :: "int \<Rightarrow> textbuf \<Rightarrow> textbuf" where
  "sci_GOTOLINE l b =
     (let q = line_start (content b) (min (nat l) (lines b - 1))
      in b\<lparr>caret := q, anchor := q\<rparr>)"

section \<open>Enumerations, keys and events\<close>

text \<open>Modelled from the spec: \<^verbatim>\<open>enums.py\<close> is imported by the widget but is not among the
  source files.  The spec (section 3) lists the five modes, the four directions and the
  four selection modes; the glossary gives the default escape chord, \<^verbatim>\<open>k\<close> then
  \<^verbatim>\<open>j\<close>, compared with the event's text; \<^verbatim>\<open>NUMSETKEYS\<close> maps the ten digit keys to
  their digit strings; the two line-jump factors have the value that \<^verbatim>\<open>__main__.py\<close>
  gives them.\<close>

datatype EditorMode = Typing | Movement | Command | ReplaceChar | FindChar

datatype Direction = Left | Right | Above | Below

datatype SelectionMode = Disabled | Character | Line | Rectangular

definition ESCAPEFIRST :: string where
  "ESCAPEFIRST = ''k''"

definition ESCAPESECOND :: string where
  "ESCAPESECOND = ''j''"

definition RETURN_LINES :: nat where
  "RETURN_LINES = 5"

definition BACKSPACE_LINES :: nat where
  "BACKSPACE_LINES = 5"

text \<open>Qt key codes (\<^verbatim>\<open>Qt.Key_*\<close>), as the numbers Qt gives them.\<close>

definition Key_Escape :: nat where "Key_Escape = 0x01000000"
definition Key_Backspace :: nat where "Key_Backspace = 0x01000003"
definition Key_Return :: nat where "Key_Return = 0x01000004"
definition Key_F1 :: nat where "Key_F1 = 0x01000030"
definition Key_F2 :: nat where "Key_F2 = 0x01000031"
definition Key_F3 :: nat where "Key_F3 = 0x01000032"
definition Key_Space :: nat where "Key_Space = 0x20"
definition Key_0 :: nat where "Key_0 = 0x30"
definition Key_B :: nat where "Key_B = 0x42"
definition Key_C :: nat where "Key_C = 0x43"
definition Key_E :: nat where "Key_E = 0x45"
definition Key_I :: nat where "Key_I = 0x49"
definition Key_J :: nat where "Key_J = 0x4a"
definition Key_K :: nat where "Key_K = 0x4b"
definition Key_L :: nat where "Key_L = 0x4c"
definition Key_U :: nat where "Key_U = 0x55"
definition Key_V :: nat where "Key_V = 0x56"

definition NUMSETKEYS :: "nat \<rightharpoonup> string" where
  "NUMSETKEYS = map_of
     [(Key_0, ''0''), (Key_0 + 1, ''1''), (Key_0 + 2, ''2''), (Key_0 + 3, ''3''),
      (Key_0 + 4, ''4''), (Key_0 + 5, ''5''), (Key_0 + 6, ''6''), (Key_0 + 7, ''7''),
      (Key_0 + 8, ''8''), (Key_0 + 9, ''9'')]"

text \<open>\<^verbatim>\<open>QApplication.keyboardModifiers()\<close> is compared as a whole with single flags; any
  other combination of flags takes none of the branches.\<close>

datatype modifiers =
  NoModifier | ShiftModifier | ControlModifier | AltModifier | GroupSwitchModifier
  | OtherModifiers

text \<open>A key event as the handler sees it: \<^verbatim>\<open>e.key()\<close>, \<^verbatim>\<open>e.text()\<close> and the keyboard
  modifiers read when the handler starts.\<close>

record event =
  ekey :: nat
  etext :: string
  emods :: modifiers

datatype filesignal = FileChanged string | FileSaved string

datatype signal =
  ModeChanged EditorMode
  | PositionChanged nat nat
  | FileSignal filesignal

section \<open>The widget's state\<close>

text \<open>The fields that \<^verbatim>\<open>__init__\<close> creates, the component's buffer, and the signals
  emitted so far, oldest first.  \<^verbatim>\<open>mode\<close> is \<^verbatim>\<open>None\<close> until the first
  \<^verbatim>\<open>setMode\<close>.  \<^verbatim>\<open>bufferFileName\<close> is an attribute that only \<^verbatim>\<open>_open\<close> creates:
  \<^verbatim>\<open>None\<close> stands for the attribute not being there.\<close>

record editor =
  mode :: "EditorMode option"
  numberList :: "string list"
  prevWasEscapeFirst :: bool
  replaceModeRepeat :: nat
  lineFindChar :: string
  lineFindCharDirection :: Direction
  selectionMode :: SelectionMode
  lastSearchText :: string
  lastSearchDirection :: Direction
  lastSearchFlags :: nat
  buf :: textbuf
  emitted :: "signal list"
  bufferFileName :: "string option"

definition on_buf :: "(textbuf \<Rightarrow> textbuf) \<Rightarrow> editor \<Rightarrow> editor" where
  "on_buf f s = s\<lparr>buf := f (buf s)\<rparr>"

definition emit :: "signal \<Rightarrow> editor \<Rightarrow> editor" where
  "emit x s = s\<lparr>emitted := emitted s @ [x]\<rparr>"

subsection \<open>setMode\<close>

definition setMode :: "EditorMode \<Rightarrow> editor \<Rightarrow> editor" where
  "setMode newmode s =
     (if Some newmode = mode s then s
      else
        (let s1 =
           (case newmode of
              Typing \<Rightarrow> on_buf (setReadOnly False) (on_buf (sci_SETCARETSTYLE 1) s)
            | Movement \<Rightarrow> on_buf (setReadOnly True) (on_buf (sci_SETCARETSTYLE 2) s)
            | Command \<Rightarrow> on_buf (setReadOnly True) s
            | ReplaceChar \<Rightarrow> on_buf (setReadOnly True) (on_buf (sci_SETCARETSTYLE 1) s)
            | FindChar \<Rightarrow> on_buf (setReadOnly True) s)
         in emit (ModeChanged newmode) (s1\<lparr>mode := Some newmode\<rparr>)))"

subsection \<open>The number prefix\<close>

text \<open>\<^verbatim>\<open>processNumberPrefix\<close>: returns the new state and \<^verbatim>\<open>haveToClearList\<close>.  Called
  only for keys of \<^verbatim>\<open>NUMSETKEYS\<close>; for any other key \<^verbatim>\<open>NUMSETKEYS.get\<close> gives
  \<^verbatim>\<open>None\<close>, which is appended and is written here as the string \<^verbatim>\<open>None\<close> that
  \<^verbatim>\<open>str\<close> later makes of it.\<close>

definition processNumberPrefix :: "nat \<Rightarrow> editor \<Rightarrow> editor \<times> bool" where
  "processNumberPrefix k s =
     (let strnumkey = (case NUMSETKEYS k of Some d \<Rightarrow> d | None \<Rightarrow> ''None'')
      in if strnumkey = ''0'' \<and> numberList s = [] then (s\<lparr>numberList := []\<rparr>, True)
         else (s\<lparr>numberList := numberList s @ [strnumkey]\<rparr>, False))"

definition hasNumberPrefix :: "editor \<Rightarrow> bool" where
  "hasNumberPrefix s = (numberList s \<noteq> [])"

text \<open>Python's \<^verbatim>\<open>int\<close> on a string of decimal digits; \<^verbatim>\<open>None\<close> stands for the
  \<^verbatim>\<open>ValueError\<close> it raises on the empty string and on a string with another character
  in it (signs, blanks and underscores, which \<^verbatim>\<open>int\<close> would accept, never occur in
  the strings of \<^verbatim>\<open>NUMSETKEYS\<close>).\<close>

definition digit_val :: "char \<Rightarrow> nat option" where
  "digit_val c =
     (let n = (of_char c :: nat) in if 48 \<le> n \<and> n \<le> 57 then Some (n - 48) else None)"

fun int_acc :: "nat \<Rightarrow> string \<Rightarrow> nat option" where
  "int_acc a [] = Some a"
| "int_acc a (c # cs) =
     (case digit_val c of None \<Rightarrow> None | Some d \<Rightarrow> int_acc (10 * a + d) cs)"

definition py_int :: "string \<Rightarrow> nat option" where
  "py_int str = (if str = [] then None else int_acc 0 str)"

text \<open>\<^verbatim>\<open>getNumberPrefix\<close>; \<^verbatim>\<open>None\<close> when \<^verbatim>\<open>int\<close> raises.\<close>

definition getNumberPrefix :: "bool \<Rightarrow> editor \<Rightarrow> nat option" where
  "getNumberPrefix limitByMaxLines s =
     (case (if numberList s = [] then Some 1 else py_int (concat (numberList s))) of
        None \<Rightarrow> None
      | Some number \<Rightarrow>
          Some (if limitByMaxLines then min number (lines (buf s)) else number))"

section \<open>Context managers\<close>

text \<open>The result of running a piece of the handler: it returned, or it raised an
  exception; either way the widget is in some state.\<close>

datatype 'a outcome = Returned 'a | Raised 'a

fun state_of :: "'a outcome \<Rightarrow> 'a" where
  "state_of (Returned s) = s"
| "state_of (Raised s) = s"

fun map_outcome :: "('a \<Rightarrow> 'b) \<Rightarrow> 'a outcome \<Rightarrow> 'b outcome" where
  "map_outcome f (Returned s) = Returned (f s)"
| "map_outcome f (Raised s) = Raised (f s)"

text \<open>The statements after a piece that may raise run only when it returned.\<close>

fun then_do :: "'a outcome \<Rightarrow> ('a \<Rightarrow> 'a) \<Rightarrow> 'a outcome" where
  "then_do (Returned s) f = Returned (f s)"
| "then_do (Raised s) f = Raised s"

text \<open>A \<^verbatim>\<open>with\<close> statement runs \<^verbatim>\<open>__enter__\<close>, the body and then \<^verbatim>\<open>__exit__\<close>, also
  when the body raised; the three \<^verbatim>\<open>__exit__\<close> methods return \<^verbatim>\<open>None\<close>, so the
  exception goes on.\<close>

definition SingleUndo :: "(editor \<Rightarrow> editor outcome) \<Rightarrow> editor \<Rightarrow> editor outcome" where
  "SingleUndo body s = map_outcome (on_buf endUndoAction) (body (on_buf beginUndoAction s))"

definition ReadWriteSingleUndo :: "(editor \<Rightarrow> editor outcome) \<Rightarrow> editor \<Rightarrow> editor outcome" where
  "ReadWriteSingleUndo body s =
     map_outcome (\<lambda>t. on_buf (setReadOnly True) (on_buf endUndoAction t))
       (body (on_buf (setReadOnly False) (on_buf beginUndoAction s)))"

definition ReadWrite :: "(editor \<Rightarrow> editor outcome) \<Rightarrow> editor \<Rightarrow> editor outcome" where
  "ReadWrite body s =
     map_outcome (on_buf (setReadOnly True)) (body (on_buf (setReadOnly False) s))"

section \<open>Collaborators taken as parameters\<close>

text \<open>Modelled from the spec: \<^verbatim>\<open>scitextops.py\<close> (class \<^verbatim>\<open>SciTextOps\<close>) is not among the
  source files.  Its operations are parameters.  By section 3 of the spec they read the
  number prefix without changing it and the mode is changed by \<^verbatim>\<open>setMode\<close> only, so an
  operation sees the whole widget and gives back the buffer, the selection mode and the
  search fields.\<close>

record textops_result =
  to_buf :: textbuf
  to_selectionMode :: SelectionMode
  to_lastSearchText :: string
  to_lastSearchFlags :: nat

definition textOp :: "(editor \<Rightarrow> textops_result) \<Rightarrow> editor \<Rightarrow> editor" where
  "textOp f s =
     (let r = f s
      in s\<lparr>buf := to_buf r, selectionMode := to_selectionMode r,
            lastSearchText := to_lastSearchText r, lastSearchFlags := to_lastSearchFlags r\<rparr>)"

text \<open>The other parameters: the component's messages whose result depends on the size of
  the view or on its word classes, the clipboard, indentation, redo, what the base class
  does with a key that carries no printable text, the component's modified flag
  (\<^verbatim>\<open>isModified\<close>, \<^verbatim>\<open>setModified\<close>), and the file system: \<^verbatim>\<open>writeFile path text\<close>
  tells whether opening the file for writing and writing the text go through.\<close>

record env =
  sci_PAGEUP :: "textbuf \<Rightarrow> textbuf"
  sci_PAGEDOWN :: "textbuf \<Rightarrow> textbuf"
  sci_WORDRIGHT :: "textbuf \<Rightarrow> textbuf"
  sci_WORDLEFT :: "textbuf \<Rightarrow> textbuf"
  sci_WORDRIGHTEND :: "textbuf \<Rightarrow> textbuf"
  sci_WORDLEFTEND :: "textbuf \<Rightarrow> textbuf"
  sci_VCHOME :: "textbuf \<Rightarrow> textbuf"
  q_redo :: "textbuf \<Rightarrow> textbuf"
  q_cut :: "textbuf \<Rightarrow> textbuf"
  q_copy :: "textbuf \<Rightarrow> textbuf"
  q_paste :: "textbuf \<Rightarrow> textbuf"
  q_indent :: "nat \<Rightarrow> textbuf \<Rightarrow> textbuf"
  q_unindent :: "nat \<Rightarrow> textbuf \<Rightarrow> textbuf"
  baseKeyPress :: "event \<Rightarrow> textbuf \<Rightarrow> textbuf"
  isModified :: "textbuf \<Rightarrow> bool"
  q_setModified :: "bool \<Rightarrow> textbuf \<Rightarrow> textbuf"
  writeFile :: "string \<Rightarrow> string \<Rightarrow> bool"
  insertLine :: "Direction \<Rightarrow> editor \<Rightarrow> textops_result"
  findWORDPosition :: "Direction \<Rightarrow> editor \<Rightarrow> int"
  findWordEnd :: "bool \<Rightarrow> editor \<Rightarrow> int"
  findWordStart :: "bool \<Rightarrow> editor \<Rightarrow> int"
  jumpToCharInLineFromPos :: "string \<Rightarrow> Direction \<Rightarrow> editor \<Rightarrow> textops_result"
  deleteLines :: "Direction \<Rightarrow> editor \<Rightarrow> textops_result"
  deleteToEOL :: "editor \<Rightarrow> textops_result"
  yankLines :: "Direction \<Rightarrow> editor \<Rightarrow> textops_result"
  yankToEOL :: "bool \<Rightarrow> editor \<Rightarrow> textops_result"
  toggleSelection :: "SelectionMode \<Rightarrow> editor \<Rightarrow> textops_result"
  changeSelectionMode :: "SelectionMode \<Rightarrow> editor \<Rightarrow> textops_result"
  disableSelection :: "editor \<Rightarrow> textops_result"
  findWordUnderCursor :: "Direction option \<Rightarrow> editor \<Rightarrow> textops_result"
  repeatLastSearch :: "Direction \<Rightarrow> editor \<Rightarrow> textops_result"

subsection \<open>The function keys\<close>

text \<open>\<^verbatim>\<open>_save\<close>: nothing to do for an unmodified document.  Otherwise the file named by
  \<^verbatim>\<open>bufferFileName\<close> is opened and written: without that attribute the call raises
  (\<^verbatim>\<open>AttributeError\<close>), and so it does when the file cannot be written; in both cases
  the widget is as before.  After the writing the modified flag is reset and
  \<^verbatim>\<open>fileSaved\<close> is emitted.\<close>

definition save :: "env \<Rightarrow> editor \<Rightarrow> editor outcome" where
  "save E s =
     (if isModified E (buf s) then
        (case bufferFileName s of
           None \<Rightarrow> Raised s
         | Some path \<Rightarrow>
             if writeFile E path (content (buf s)) then
               Returned (emit (FileSignal (FileSaved path)) (on_buf (q_setModified E False) s))
             else Raised s)
      else Returned s)"

text \<open>\<^verbatim>\<open>_openWithDialog\<close>: after the call of \<^verbatim>\<open>isModified\<close> both branches of its first
  \<^verbatim>\<open>if\<close> name \<^verbatim>\<open>QMessageBox\<close>, which the module does not import (from
  \<^verbatim>\<open>PyQt5.QtWidgets\<close> it imports \<^verbatim>\<open>QApplication\<close> only): the call raises
  \<^verbatim>\<open>NameError\<close> before it has changed anything.  The rest of the method, and with it
  \<^verbatim>\<open>_open\<close>, which only this method calls, is never reached.\<close>

definition openWithDialog :: "editor \<Rightarrow> editor outcome" where
  "openWithDialog s = Raised s"

text \<open>\<^verbatim>\<open>processFnKeyEvent\<close>: F1 saves, F2 loads, F3 saves and then asks the application to
  quit, which leaves the widget as it is.\<close>

definition processFnKeyEvent :: "env \<Rightarrow> event \<Rightarrow> editor \<Rightarrow> editor outcome" where
  "processFnKeyEvent E e s =
     (if ekey e = Key_F1 then save E s
      else if ekey e = Key_F2 then openWithDialog s
      else if ekey e = Key_F3 then then_do (save E s) (\<lambda>t. t)
      else Returned s)"

text \<open>\<^verbatim>\<open>super().keyPressEvent(e)\<close>: printable text typed without Control or Alt is
  inserted; every other key is the parameter's.\<close>

definition is_print :: "char \<Rightarrow> bool" where
  "is_print c = (32 \<le> (of_char c :: nat) \<and> (of_char c :: nat) < 127)"

definition super_keyPressEvent :: "env \<Rightarrow> event \<Rightarrow> textbuf \<Rightarrow> textbuf" where
  "super_keyPressEvent E e b =
     (if etext e \<noteq> [] \<and> is_print (hd (etext e))
         \<and> (emods e = NoModifier \<or> emods e = ShiftModifier \<or> emods e = GroupSwitchModifier)
      then insertCharacter (etext e) b
      else baseKeyPress E e b)"

section \<open>keyPressEvent\<close>

text \<open>The handler's local variables that its branches set.\<close>

record frame =
  process :: bool
  clearnumberList :: bool
  curLine :: nat

text \<open>\<^verbatim>\<open>for _ in range(k * self.getNumberPrefix(lim)): step\<close>; the call of
  \<^verbatim>\<open>getNumberPrefix\<close> is where the branch can raise.\<close>

definition repeat :: "nat \<Rightarrow> bool \<Rightarrow> (editor \<Rightarrow> editor) \<Rightarrow> editor \<Rightarrow> editor outcome" where
  "repeat k lim step s =
     (case getNumberPrefix lim s of
        None \<Rightarrow> Raised s
      | Some n \<Rightarrow> Returned ((step ^^ (k * n)) s))"

definition is_space :: "char \<Rightarrow> bool" where
  "is_space c =
     (let n = (of_char c :: nat) in n = 32 \<or> (9 \<le> n \<and> n \<le> 13) \<or> (28 \<le> n \<and> n \<le> 31))"

definition lstrip :: "string \<Rightarrow> string" where
  "lstrip str = dropWhile is_space str"

text \<open>One round of the loop of \<^verbatim>\<open>J\<close>.\<close>

definition join_step :: "textbuf \<Rightarrow> textbuf" where
  "join_step b =
     (let (line, index) = getCursorPosition b;
          nextLine = lstrip (text_line b (line + 1));
          nextLine = (if nextLine = [] then [newline] else nextLine);
          b1 = insertAt (CHR '' '' # nextLine) line (nat (lineLength b line - 1)) b;
          b2 = sci_LINEDOWN b1;
          b3 = sci_LINEDELETE b2;
          b4 = sci_LINEDELETE b3
      in sci_LINEUP b4)"

text \<open>One round of the loop of ReplaceChar mode.\<close>

definition replace_step :: "string \<Rightarrow> nat \<Rightarrow> textbuf \<Rightarrow> textbuf" where
  "replace_step t rep b =
     (let (line, index) = getCursorPosition b;
          b1 = setSelection line index line (index + 1) b;
          b2 = sci_CLEAR b1;
          b3 = insertAt t line index b2
      in if 1 < rep then setCursorPosition line (index + 1) b3 else b3)"

definition typing_mode ::
  "env \<Rightarrow> event \<Rightarrow> modifiers \<Rightarrow> frame \<Rightarrow> editor \<Rightarrow> (frame \<times> editor) outcome" where
  "typing_mode E e m fr s =
     (if m = NoModifier \<or> m = ShiftModifier then
        (if ekey e = Key_Escape then Returned (fr, setMode Movement s)
         else if etext e = ESCAPEFIRST then
           Returned (fr\<lparr>process := True\<rparr>, s\<lparr>prevWasEscapeFirst := True\<rparr>)
         else if etext e = ESCAPESECOND then
           (if prevWasEscapeFirst s then
              Returned (fr, (setMode Movement (on_buf sci_DELETEBACK s))
                              \<lparr>prevWasEscapeFirst := False\<rparr>)
            else Returned (fr\<lparr>process := True\<rparr>, s\<lparr>prevWasEscapeFirst := False\<rparr>))
         else if ekey e \<in> {Key_F1, Key_F2, Key_F3} then
           map_outcome (Pair fr) (processFnKeyEvent E e s)
         else Returned (fr\<lparr>process := True\<rparr>, s))
      else if m = ControlModifier then
        (if ekey e = Key_I then Returned (fr, on_buf (sci_PAGEUP E) s)
         else if ekey e = Key_K then Returned (fr, on_buf (sci_PAGEDOWN E) s)
         else Returned (fr, s))
      else if m = AltModifier then
        (if ekey e = Key_I then Returned (fr, on_buf sci_LINEUP s)
         else if ekey e = Key_K then Returned (fr, on_buf sci_LINEDOWN s)
         else if ekey e = Key_J then Returned (fr, on_buf sci_CHARLEFT s)
         else if ekey e = Key_L then Returned (fr, on_buf sci_CHARRIGHT s)
         else Returned (fr\<lparr>process := True\<rparr>, s))
      else Returned (fr\<lparr>process := True\<rparr>, s))"

text \<open>\<^verbatim>\<open>processCommand\<close> is a stub.\<close>

definition processCommand :: "editor \<Rightarrow> editor" where
  "processCommand s = s"

definition command_mode :: "event \<Rightarrow> editor \<Rightarrow> editor" where
  "command_mode e s =
     (if ekey e = Key_Escape then setMode Movement s
      else if ekey e = Key_Return then setMode Movement (processCommand s)
      else s)"

definition replacechar_mode :: "event \<Rightarrow> editor \<Rightarrow> editor outcome" where
  "replacechar_mode e s =
     (if ekey e = Key_Escape then Returned (setMode Movement s)
      else if etext e = [] then Returned s
      else
        then_do
          (ReadWriteSingleUndo
             (\<lambda>t. Returned
                (on_buf (replace_step (etext e) (replaceModeRepeat t) ^^ replaceModeRepeat t) t))
             s)
          (\<lambda>t. setMode Movement (t\<lparr>replaceModeRepeat := 1\<rparr>)))"

definition findchar_mode :: "env \<Rightarrow> event \<Rightarrow> editor \<Rightarrow> editor" where
  "findchar_mode E e s =
     (if ekey e = Key_Escape then setMode Movement s
      else if etext e = [] then s
      else
        (let s1 = s\<lparr>lineFindChar := etext e\<rparr>;
             s2 = textOp (jumpToCharInLineFromPos E (lineFindChar s1)
                            (lineFindCharDirection s1)) s1
         in setMode Movement s2))"

subsection \<open>Movement mode\<close>

text \<open>The loop of \<^verbatim>\<open>>\<close> and \<^verbatim>\<open><\<close>: \<^verbatim>\<open>indent(curLine); curLine += 1\<close>, on the
  handler's own \<^verbatim>\<open>curLine\<close>.\<close>

definition indent_loop :: "(nat \<Rightarrow> textbuf \<Rightarrow> textbuf) \<Rightarrow> nat \<Rightarrow> nat \<Rightarrow> editor \<Rightarrow> editor" where
  "indent_loop f cl n s = on_buf (fold f [cl ..< cl + n]) s"

definition indent_branch ::
  "(nat \<Rightarrow> textbuf \<Rightarrow> textbuf) \<Rightarrow> frame \<Rightarrow> editor \<Rightarrow> (frame \<times> editor) outcome" where
  "indent_branch f fr s =
     (case getNumberPrefix False s of
        None \<Rightarrow> map_outcome (Pair fr) (ReadWriteSingleUndo Raised s)
      | Some n \<Rightarrow>
          map_outcome (Pair (fr\<lparr>curLine := curLine fr + n\<rparr>))
            (ReadWriteSingleUndo (\<lambda>t. Returned (indent_loop f (curLine fr) n t)) s))"

text \<open>Without modifier or with Shift, third part of the chain: from \<^verbatim>\<open>f\<close> to the final
  \<^verbatim>\<open>else\<close>.\<close>

definition movement_plain3 :: "env \<Rightarrow> event \<Rightarrow> frame \<Rightarrow> editor \<Rightarrow> (frame \<times> editor) outcome" where
  "movement_plain3 E e fr s =
     (let t = etext e; ret = (\<lambda>x. Returned (fr, x)) in
      if t = ''f'' then ret (setMode FindChar (s\<lparr>lineFindCharDirection := Right\<rparr>))
      else if t = ''F'' then ret (setMode FindChar (s\<lparr>lineFindCharDirection := Left\<rparr>))
      else if t = '';'' then
        ret (textOp (jumpToCharInLineFromPos E (lineFindChar s) (lineFindCharDirection s)) s)
      else if t = '','' then
        ret (textOp (jumpToCharInLineFromPos E (lineFindChar s)
               (if lineFindCharDirection s = Left then Right else Left)) s)
      else if t = ''d'' then
        (if \<not> hasNumberPrefix s then ret s
         else map_outcome (Pair fr)
                (ReadWrite (\<lambda>x. Returned (textOp (deleteLines E Below) x)) s))
      else if t = ''D'' then
        map_outcome (Pair fr) (ReadWrite (\<lambda>x. Returned (textOp (deleteToEOL E) x)) s)
      else if t = ''c'' then
        (if \<not> hasNumberPrefix s then ret s
         else map_outcome (Pair fr)
                (ReadWrite (\<lambda>x. Returned (setMode Typing (textOp (deleteLines E Below) x))) s))
      else if t = ''C'' then
        map_outcome (Pair fr)
          (ReadWrite (\<lambda>x. Returned (setMode Typing (textOp (deleteToEOL E) x))) s)
      else if t = ''y'' \<or> t = ''Y'' then
        (if selectionMode s \<noteq> Disabled then
           ret (textOp (disableSelection E) (on_buf (q_copy E) s))
         else if t = ''y'' then
           (if hasNumberPrefix s then ret (textOp (yankLines E Below) s) else ret s)
         else ret (textOp (yankLines E Below) s))
      else if t = ''v'' then ret (textOp (toggleSelection E Character) s)
      else if t = ''V'' then ret (textOp (toggleSelection E Line) s)
      else if t = ''*'' then
        ret ((textOp (findWordUnderCursor E None) s)\<lparr>lastSearchDirection := Below\<rparr>)
      else if t = ''#'' then
        ret ((textOp (findWordUnderCursor E (Some Above)) s)\<lparr>lastSearchDirection := Above\<rparr>)
      else if t = ''n'' then ret (textOp (repeatLastSearch E (lastSearchDirection s)) s)
      else if t = ''N'' then
        ret (textOp (repeatLastSearch E
               (if lastSearchDirection s = Below then Above else Below)) s)
      else if ekey e \<in> {Key_F1, Key_F2, Key_F3} then
        map_outcome (Pair fr) (processFnKeyEvent E e s)
      else Returned (fr\<lparr>clearnumberList := False\<rparr>, s))"

text \<open>Second part: from \<^verbatim>\<open>o\<close> to \<^verbatim>\<open>P\<close>.\<close>

definition movement_plain2 ::
  "env \<Rightarrow> event \<Rightarrow> frame \<Rightarrow> nat \<Rightarrow> editor \<Rightarrow> (frame \<times> editor) outcome" where
  "movement_plain2 E e fr curIndex s =
     (let t = etext e; ret = (\<lambda>x. Returned (fr, x)); keep = map_outcome (Pair fr) in
      if t = ''o'' then
        keep (SingleUndo (\<lambda>x. then_do (repeat 1 False (textOp (insertLine E Below)) x)
                                 (setMode Typing)) s)
      else if t = ''O'' then
        keep (SingleUndo (\<lambda>x. then_do (repeat 1 False (textOp (insertLine E Above)) x)
                                 (setMode Typing)) s)
      else if t = ''g'' then
        (if \<not> hasNumberPrefix s then ret s
         else (case getNumberPrefix True s of
                 None \<Rightarrow> Raised (fr, s)
               | Some line \<Rightarrow> ret (on_buf (sci_GOTOLINE (int line - 1)) s)))
      else if t = ''r'' then
        (case getNumberPrefix False s of
           None \<Rightarrow> Raised (fr, s)
         | Some n \<Rightarrow> ret (setMode ReplaceChar (s\<lparr>replaceModeRepeat := n\<rparr>)))
      else if t = ''$'' then ret (on_buf sci_CHARLEFT (on_buf sci_LINEEND s))
      else if t = ''A'' then ret (setMode Typing (on_buf sci_LINEEND s))
      else if t = ''I'' then ret (setMode Typing (on_buf (sci_VCHOME E) s))
      else if t = ''J'' then
        keep (ReadWriteSingleUndo (repeat 1 True (on_buf join_step)) s)
      else if t = ''W'' then
        keep (repeat 1 False
                (\<lambda>x. let nextWordPos = findWORDPosition E Right x
                      in if nextWordPos \<noteq> - 1 then on_buf (sci_GOTOPOS nextWordPos) x else x) s)
      else if t = ''E'' then
        keep (repeat 1 False
                (\<lambda>x. let nextWordEndPos = findWORDPosition E Right x
                      in if nextWordEndPos \<noteq> - 1 then
                           (let x1 = on_buf (sci_GOTOPOS nextWordEndPos) x
                            in on_buf (sci_GOTOPOS (findWordEnd E True x1)) x1)
                         else x) s)
      else if t = ''B'' then
        keep (repeat 1 False
                (\<lambda>x. let prevWordEndPos = findWORDPosition E Left x
                      in if prevWordEndPos \<noteq> - 1 then
                           (let x1 = on_buf (sci_GOTOPOS prevWordEndPos) x
                            in on_buf (sci_GOTOPOS (findWordStart E True x1)) x1)
                         else x) s)
      else if t = ''G'' then ret (on_buf (sci_GOTOLINE (int (lines (buf s)))) s)
      else if t = ''x'' then
        keep (ReadWriteSingleUndo
                (\<lambda>x. case getNumberPrefix False x of
                        None \<Rightarrow> Raised x
                      | Some num \<Rightarrow>
                          Returned (on_buf (q_cut E)
                            (on_buf (setSelection (curLine fr) curIndex (curLine fr)
                                       (curIndex + num)) x))) s)
      else if t = ''X'' then
        keep (ReadWriteSingleUndo (repeat 1 False (on_buf sci_DELETEBACK)) s)
      else if t = ''>'' then indent_branch (q_indent E) fr s
      else if t = ''<'' then indent_branch (q_unindent E) fr s
      else if t = ''p'' then
        keep (ReadWriteSingleUndo (repeat 1 False (on_buf (q_paste E))) s)
      else if t = ''P'' then
        keep (ReadWriteSingleUndo
                (repeat 1 False (\<lambda>x. on_buf (q_paste E) (textOp (insertLine E Below) x))) s)
      else movement_plain3 E e fr s)"

text \<open>First part: the digit keys, the mode keys and the motions up to \<^verbatim>\<open>s\<close>.  The test
  for Control inside the branches of \<^verbatim>\<open>i\<close> and \<^verbatim>\<open>k\<close> is the source's.\<close>

definition movement_plain ::
  "env \<Rightarrow> event \<Rightarrow> modifiers \<Rightarrow> frame \<Rightarrow> nat \<Rightarrow> editor \<Rightarrow> (frame \<times> editor) outcome" where
  "movement_plain E e m fr curIndex s =
     (let t = etext e; ret = (\<lambda>x. Returned (fr, x)); keep = map_outcome (Pair fr) in
      if NUMSETKEYS (ekey e) \<noteq> None then
        (let (s1, c) = processNumberPrefix (ekey e) s
         in Returned (fr\<lparr>clearnumberList := c\<rparr>,
                      if t = ''0'' \<and> c then on_buf sci_HOME s1 else s1))
      else if t = ''t'' then ret (setMode Typing s)
      else if t = ''a'' then ret (setMode Typing (on_buf sci_CHARRIGHT s))
      else if ekey e = Key_Space then ret (setMode Command s)
      else if t = ''i'' then
        (if m = ControlModifier then keep (repeat 1 True (on_buf (sci_PAGEUP E)) s)
         else keep (repeat 1 True (on_buf sci_LINEUP) s))
      else if ekey e = Key_Backspace then
        keep (repeat BACKSPACE_LINES True (on_buf sci_LINEUP) s)
      else if t = ''k'' then
        (if m = ControlModifier then keep (repeat 1 True (on_buf (sci_PAGEDOWN E)) s)
         else keep (repeat 1 True (on_buf sci_LINEDOWN) s))
      else if ekey e = Key_Return then
        keep (repeat RETURN_LINES True (on_buf sci_LINEDOWN) s)
      else if t = ''j'' then keep (repeat 1 False (on_buf sci_CHARLEFT) s)
      else if t = ''l'' then keep (repeat 1 False (on_buf sci_CHARRIGHT) s)
      else if t = ''w'' then keep (repeat 1 False (on_buf (sci_WORDRIGHT E)) s)
      else if t = ''b'' then keep (repeat 1 False (on_buf (sci_WORDLEFT E)) s)
      else if t = ''e'' then
        keep (repeat 1 False
                (\<lambda>x. on_buf sci_CHARLEFT (on_buf (sci_WORDRIGHTEND E) (on_buf sci_CHARRIGHT x))) s)
      else if t = ''u'' then keep (ReadWrite (repeat 1 False (on_buf undo)) s)
      else if t = ''s'' then ret (on_buf (sci_VCHOME E) s)
      else movement_plain2 E e fr curIndex s)"

definition movement_mode ::
  "env \<Rightarrow> event \<Rightarrow> modifiers \<Rightarrow> frame \<Rightarrow> nat \<Rightarrow> editor \<Rightarrow> (frame \<times> editor) outcome" where
  "movement_mode E e m fr curIndex s =
     (let ret = (\<lambda>x. Returned (fr, x)); keep = map_outcome (Pair fr) in
      if m = NoModifier \<or> m = ShiftModifier then movement_plain E e m fr curIndex s
      else if m = AltModifier then
        (if ekey e = Key_E then
           keep (repeat 1 False (\<lambda>x. on_buf sci_CHARLEFT (on_buf (sci_WORDLEFTEND E) x)) s)
         else if ekey e = Key_B then
           keep (repeat 1 False
                   (\<lambda>x. on_buf (sci_GOTOPOS (findWORDPosition E Left x)) x) s)
         else if ekey e = Key_U then keep (ReadWrite (repeat 1 False (on_buf (q_redo E))) s)
         else ret s)
      else if m = ControlModifier then
        (if ekey e = Key_I then keep (repeat 1 True (on_buf (sci_PAGEUP E)) s)
         else if ekey e = Key_K then keep (repeat 1 True (on_buf (sci_PAGEDOWN E)) s)
         else if ekey e = Key_C then
           (if selectionMode s \<noteq> Disabled then
              ret (textOp (disableSelection E) (on_buf (q_copy E) s))
            else ret (textOp (yankToEOL E True) s))
         else if ekey e = Key_V then
           (if selectionMode s \<noteq> Disabled then
              ret (textOp (changeSelectionMode E Rectangular) s)
            else keep (ReadWriteSingleUndo (repeat 1 False (on_buf (q_paste E))) s))
         else ret s)
      else ret s)"

subsection \<open>The handler\<close>

text \<open>The statements after the mode dispatch: the escape flag, the number list, the base
  class's handler, and the position signal, which compares the end position with the
  handler's \<^verbatim>\<open>curLine\<close> and \<^verbatim>\<open>curIndex\<close>.\<close>

definition epilogue :: "env \<Rightarrow> event \<Rightarrow> frame \<Rightarrow> nat \<Rightarrow> editor \<Rightarrow> editor" where
  "epilogue E e fr curIndex s =
     (let s1 = (if prevWasEscapeFirst s \<and> etext e \<noteq> ESCAPEFIRST
                then s\<lparr>prevWasEscapeFirst := False\<rparr> else s);
          s2 = (if clearnumberList fr then s1\<lparr>numberList := []\<rparr> else s1);
          s3 = (if process fr then on_buf (super_keyPressEvent E e) s2 else s2);
          (endLine, endIndex) = getCursorPosition (buf s3)
      in if endLine \<noteq> curLine fr \<or> endIndex \<noteq> curIndex
         then emit (PositionChanged endLine endIndex) s3 else s3)"

definition dispatch :: "env \<Rightarrow> event \<Rightarrow> editor \<Rightarrow> (frame \<times> editor) outcome" where
  "dispatch E e s =
     (let m = (if emods e = GroupSwitchModifier then NoModifier else emods e);
          (cl, ci) = getCursorPosition (buf s);
          fr = \<lparr>process = False, clearnumberList = True, curLine = cl\<rparr>
      in case mode s of
           Some Typing \<Rightarrow> typing_mode E e m fr s
         | Some Movement \<Rightarrow> movement_mode E e m fr ci s
         | Some Command \<Rightarrow> Returned (fr, command_mode e s)
         | Some ReplaceChar \<Rightarrow> map_outcome (Pair fr) (replacechar_mode e s)
         | Some FindChar \<Rightarrow> Returned (fr, findchar_mode E e s)
         | None \<Rightarrow> Returned (fr, s))"

definition keyPressEvent :: "env \<Rightarrow> event \<Rightarrow> editor \<Rightarrow> editor outcome" where
  "keyPressEvent E e s =
     (case dispatch E e s of
        Raised (fr, s1) \<Rightarrow> Raised s1
      | Returned (fr, s1) \<Rightarrow>
          Returned (epilogue E e fr (snd (getCursorPosition (buf s))) s1))"

text \<open>A sequence of key events, each handled to its end before the next; an exception
  leaves the handler and the next event finds the state as it was left.\<close>

fun keyPressEvents :: "env \<Rightarrow> event list \<Rightarrow> editor \<Rightarrow> editor" where
  "keyPressEvents E [] s = s"
| "keyPressEvents E (e # es) s = keyPressEvents E es (state_of (keyPressEvent E e s))"

text \<open>The state after \<^verbatim>\<open>__init__\<close>, given the component's buffer after the first
  \<^verbatim>\<open>setMode\<close>.\<close>

definition init_buf :: textbuf where
  "init_buf = \<lparr>content = [], caret = 0, anchor = 0, readOnly = False, caretStyle = 0,
               undoLog = [], undoDepth = 0, groupDirty = False\<rparr>"

definition init_editor :: "textbuf \<Rightarrow> editor" where
  "init_editor b =
     (setMode Movement
        \<lparr>mode = None, numberList = [], prevWasEscapeFirst = False, replaceModeRepeat = 1,
         lineFindChar = [], lineFindCharDirection = Right, selectionMode = Disabled,
         lastSearchText = [], lastSearchDirection = Below, lastSearchFlags = 0,
         buf = b, emitted = [], bufferFileName = None\<rparr>)"

text \<open>The states the widget can be in: after \<^verbatim>\<open>__init__\<close> on some buffer, and after
  any key event, whatever the collaborators do.\<close>

inductive reachable :: "editor \<Rightarrow> bool" where
  reachable_init: "reachable (init_editor b)"
| reachable_key: "reachable s \<Longrightarrow> reachable (state_of (keyPressEvent E e s))"

section \<open>Notions used in the statements\<close>

fun returned :: "'a outcome \<Rightarrow> bool" where
  "returned (Returned s) = True"
| "returned (Raised s) = False"

text \<open>The strings that \<^verbatim>\<open>NUMSETKEYS\<close> can put into the number list.\<close>

definition digit_strings :: "string list" where
  "digit_strings = map (\<lambda>c. [c]) ''0123456789''"

text \<open>A number list as the handler builds it: digit strings, the first of them not
  \<^verbatim>\<open>0\<close>.\<close>

definition prefix_ok :: "string list \<Rightarrow> bool" where
  "prefix_ok ds \<longleftrightarrow> list_all (\<lambda>d. d \<in> set digit_strings) ds \<and> (ds = [] \<or> hd ds \<noteq> ''0'')"

text \<open>The key event of a character typed with no modifier held.  For a digit the key code
  is the character's code; for the lower-case letters used below Qt's key code is that
  of the capital letter.\<close>

definition digit_event :: "char \<Rightarrow> event" where
  "digit_event c = \<lparr>ekey = of_char c, etext = [c], emods = NoModifier\<rparr>"

definition letter_event :: "char \<Rightarrow> event" where
  "letter_event c = \<lparr>ekey = of_char c - 32, etext = [c], emods = NoModifier\<rparr>"

text \<open>The event texts and keys that the chain of Movement mode without modifier (or with
  Shift) has a branch for, besides the digit keys.\<close>

definition movement_texts :: "string list" where
  "movement_texts =
     [''t'', ''a'', ''i'', ''k'', ''j'', ''l'', ''w'', ''b'', ''e'', ''u'', ''s'', ''o'', ''O'',
      ''g'', ''r'', ''$'', ''A'', ''I'', ''J'', ''W'', ''E'', ''B'', ''G'', ''x'', ''X'', ''>'',
      ''<'', ''p'', ''P'', ''f'', ''F'', '';'', '','', ''d'', ''D'', ''c'', ''C'', ''y'', ''Y'',
      ''v'', ''V'', ''*'', ''#'', ''n'', ''N'']"

definition movement_keys :: "nat list" where
  "movement_keys = [Key_Space, Key_Backspace, Key_Return, Key_F1, Key_F2, Key_F3]"

definition plain_modifiers :: "event \<Rightarrow> bool" where
  "plain_modifiers e \<longleftrightarrow> emods e \<in> {NoModifier, ShiftModifier, GroupSwitchModifier}"

definition unmapped :: "event \<Rightarrow> bool" where
  "unmapped e \<longleftrightarrow>
     NUMSETKEYS (ekey e) = None \<and> etext e \<notin> set movement_texts
     \<and> ekey e \<notin> set movement_keys"

text \<open>Collaborators that leave everything as it is and find nothing: the environment of
  the concrete runs below, in which no collaborator has anything to do.\<close>

definition unchanged :: "editor \<Rightarrow> textops_result" where
  "unchanged s =
     \<lparr>to_buf = buf s, to_selectionMode = selectionMode s,
      to_lastSearchText = lastSearchText s, to_lastSearchFlags = lastSearchFlags s\<rparr>"

definition idle_env :: env where
  "idle_env =
     \<lparr>sci_PAGEUP = (\<lambda>b. b), sci_PAGEDOWN = (\<lambda>b. b), sci_WORDRIGHT = (\<lambda>b. b),
      sci_WORDLEFT = (\<lambda>b. b), sci_WORDRIGHTEND = (\<lambda>b. b), sci_WORDLEFTEND = (\<lambda>b. b),
      sci_VCHOME = (\<lambda>b. b), q_redo = (\<lambda>b. b), q_cut = (\<lambda>b. b), q_copy = (\<lambda>b. b),
      q_paste = (\<lambda>b. b), q_indent = (\<lambda>l b. b), q_unindent = (\<lambda>l b. b),
      baseKeyPress = (\<lambda>e b. b), isModified = (\<lambda>b. False), q_setModified = (\<lambda>f b. b),
      writeFile = (\<lambda>path str. True),
      insertLine = (\<lambda>d. unchanged), findWORDPosition = (\<lambda>d s. - 1),
      findWordEnd = (\<lambda>w s. - 1), findWordStart = (\<lambda>w s. - 1),
      jumpToCharInLineFromPos = (\<lambda>c d. unchanged), deleteLines = (\<lambda>d. unchanged),
      deleteToEOL = unchanged, yankLines = (\<lambda>d. unchanged), yankToEOL = (\<lambda>f. unchanged),
      toggleSelection = (\<lambda>m. unchanged), changeSelectionMode = (\<lambda>m. unchanged),
      disableSelection = unchanged, findWordUnderCursor = (\<lambda>d. unchanged),
      repeatLastSearch = (\<lambda>d. unchanged)\<rparr>"

text \<open>A buffer holding a text, the caret at a position, nothing selected.\<close>

definition buffer_at :: "string \<Rightarrow> nat \<Rightarrow> textbuf" where
  "buffer_at str p = init_buf\<lparr>content := str, caret := p, anchor := p\<rparr>"

text \<open>The modifiers as the handler uses them: AltGr counts as no modifier.\<close>

definition eff_mods :: "event \<Rightarrow> modifiers" where
  "eff_mods e = (if emods e = GroupSwitchModifier then NoModifier else emods e)"

text \<open>The motion keys of Movement mode without modifier or with Shift, in the order of the
  handler's chain: how often a motion runs its step, and the step.  The count \<open>n\<close> is
  \<^verbatim>\<open>getNumberPrefix()\<close>; the line motions take \<^verbatim>\<open>getNumberPrefix(True)\<close>, the smaller of
  \<open>n\<close> and the number of lines, \<^verbatim>\<open>Backspace\<close> and \<^verbatim>\<open>Return\<close> five times that; three
  motions do not look at the count.  Keys that are digits, that change the mode or the
  text, and keys of the search commands have no entry.\<close>

datatype repetition = Exact | Clamped nat | Once

fun times :: "repetition \<Rightarrow> nat \<Rightarrow> nat \<Rightarrow> nat" where
  "times Exact n lns = n"
| "times (Clamped k) n lns = k * min n lns"
| "times Once n lns = 1"

definition motion_of :: "env \<Rightarrow> event \<Rightarrow> (repetition \<times> (editor \<Rightarrow> editor)) option" where
  "motion_of E e =
     (let t = etext e in
      if NUMSETKEYS (ekey e) \<noteq> None then None
      else if t = ''t'' \<or> t = ''a'' \<or> ekey e = Key_Space then None
      else if t = ''i'' then Some (Clamped 1, on_buf sci_LINEUP)
      else if ekey e = Key_Backspace then Some (Clamped BACKSPACE_LINES, on_buf sci_LINEUP)
      else if t = ''k'' then Some (Clamped 1, on_buf sci_LINEDOWN)
      else if ekey e = Key_Return then Some (Clamped RETURN_LINES, on_buf sci_LINEDOWN)
      else if t = ''j'' then Some (Exact, on_buf sci_CHARLEFT)
      else if t = ''l'' then Some (Exact, on_buf sci_CHARRIGHT)
      else if t = ''w'' then Some (Exact, on_buf (sci_WORDRIGHT E))
      else if t = ''b'' then Some (Exact, on_buf (sci_WORDLEFT E))
      else if t = ''e'' then
        Some (Exact,
          \<lambda>x. on_buf sci_CHARLEFT (on_buf (sci_WORDRIGHTEND E) (on_buf sci_CHARRIGHT x)))
      else if t = ''u'' then None
      else if t = ''s'' then Some (Once, on_buf (sci_VCHOME E))
      else if t = ''o'' \<or> t = ''O'' \<or> t = ''g'' \<or> t = ''r'' then None
      else if t = ''$'' then Some (Once, \<lambda>x. on_buf sci_CHARLEFT (on_buf sci_LINEEND x))
      else if t = ''A'' \<or> t = ''I'' \<or> t = ''J'' then None
      else if t = ''W'' then
        Some (Exact,
          \<lambda>x. let nextWordPos = findWORDPosition E Right x
               in if nextWordPos \<noteq> - 1 then on_buf (sci_GOTOPOS nextWordPos) x else x)
      else if t = ''E'' then
        Some (Exact,
          \<lambda>x. let nextWordEndPos = findWORDPosition E Right x
               in if nextWordEndPos \<noteq> - 1 then
                    (let x1 = on_buf (sci_GOTOPOS nextWordEndPos) x
                     in on_buf (sci_GOTOPOS (findWordEnd E True x1)) x1)
                  else x)
      else if t = ''B'' then
        Some (Exact,
          \<lambda>x. let prevWordEndPos = findWORDPosition E Left x
               in if prevWordEndPos \<noteq> - 1 then
                    (let x1 = on_buf (sci_GOTOPOS prevWordEndPos) x
                     in on_buf (sci_GOTOPOS (findWordStart E True x1)) x1)
                  else x)
      else if t = ''G'' then Some (Once, \<lambda>x. on_buf (sci_GOTOLINE (int (lines (buf x)))) x)
      else None)"

text \<open>The key \<^verbatim>\<open><\<close> typed with no modifier held.\<close>

definition less_event :: event where
  "less_event = \<lparr>ekey = 0x3c, etext = ''<'', emods = NoModifier\<rparr>"

section \<open>Basic facts\<close>

lemma buf_on_buf [simp]: "buf (on_buf f s) = f (buf s)"
  by (simp add: on_buf_def)

lemmas key_defs =
  Key_Escape_def Key_Backspace_def Key_Return_def Key_F1_def Key_F2_def Key_F3_def
  Key_Space_def Key_0_def Key_B_def Key_C_def Key_E_def Key_I_def Key_J_def Key_K_def
  Key_L_def Key_U_def Key_V_def

subsection \<open>The number prefix is a positive number\<close>

lemma split_lines_not_Nil [simp]: "split_lines s \<noteq> []"
  by (induction s) (auto split: list.splits)

lemma lines_pos [simp]: "0 < lines b"
  by (simp add: lines_def)

lemma dv: "digit_val (CHR ''0'') = Some 0" "digit_val (CHR ''1'') = Some 1"
  "digit_val (CHR ''2'') = Some 2" "digit_val (CHR ''3'') = Some 3"
  "digit_val (CHR ''4'') = Some 4" "digit_val (CHR ''5'') = Some 5"
  "digit_val (CHR ''6'') = Some 6" "digit_val (CHR ''7'') = Some 7"
  "digit_val (CHR ''8'') = Some 8" "digit_val (CHR ''9'') = Some 9"
  by (simp_all add: digit_val_def)

lemma digit_val_digit_string:
  assumes "d \<in> set digit_strings"
  shows "\<exists>c v. d = [c] \<and> digit_val c = Some v \<and> (d = ''0'' \<or> 1 \<le> v)"
proof -
  from assms consider "d = ''0''" | "d = ''1''" | "d = ''2''" | "d = ''3''" | "d = ''4''"
    | "d = ''5''" | "d = ''6''" | "d = ''7''" | "d = ''8''" | "d = ''9''"
    unfolding digit_strings_def by fastforce
  then show ?thesis
    by cases (simp_all add: dv)
qed


lemma int_acc_digits:
  "list_all (\<lambda>d. d \<in> set digit_strings) ds \<Longrightarrow> \<exists>n. int_acc a (concat ds) = Some n \<and> a \<le> n"
proof (induction ds arbitrary: a)
  case Nil
  then show ?case by simp
next
  case (Cons d ds)
  from Cons.prems have "d \<in> set digit_strings" by simp
  from digit_val_digit_string [OF this] obtain c v where d: "d = [c]" "digit_val c = Some v"
    by blast
  from Cons.prems have "list_all (\<lambda>d. d \<in> set digit_strings) ds" by simp
  from Cons.IH [OF this, of "10 * a + v"] obtain n
    where "int_acc (10 * a + v) (concat ds) = Some n" "10 * a + v \<le> n" by blast
  with d show ?case by simp
qed

lemma py_int_prefix_ok:
  assumes "prefix_ok ds" "ds \<noteq> []"
  shows "\<exists>n. py_int (concat ds) = Some n \<and> 1 \<le> n"
proof -
  from assms obtain d ds' where ds: "ds = d # ds'" by (cases ds) auto
  with assms have dd: "d \<in> set digit_strings" "d \<noteq> ''0''"
    and rest: "list_all (\<lambda>d. d \<in> set digit_strings) ds'"
    by (simp_all add: prefix_ok_def)
  from digit_val_digit_string [OF dd(1)] dd(2) obtain c v
    where d: "d = [c]" "digit_val c = Some v" "1 \<le> v" by blast
  from int_acc_digits [OF rest, of v] obtain n
    where "int_acc v (concat ds') = Some n" "v \<le> n" by blast
  with d ds show ?thesis by (simp add: py_int_def)
qed

lemma getNumberPrefix_prefix_ok:
  assumes "prefix_ok (numberList s)"
  shows "\<exists>n. getNumberPrefix lim s = Some n \<and> 1 \<le> n"
proof (cases "numberList s = []")
  case True
  then show ?thesis by (simp add: getNumberPrefix_def Suc_le_eq)
next
  case False
  from py_int_prefix_ok [OF assms False] obtain n
    where "py_int (concat (numberList s)) = Some n" "1 \<le> n" by blast
  with False show ?thesis by (simp add: getNumberPrefix_def Suc_le_eq)
qed

subsection \<open>What the branches leave alone: the number list\<close>

lemma numberList_on_buf [simp]: "numberList (on_buf f s) = numberList s"
  by (simp add: on_buf_def)
lemma numberList_emit [simp]: "numberList (emit x s) = numberList s"
  by (simp add: emit_def)
lemma numberList_setMode [simp]: "numberList (setMode m s) = numberList s"
  by (cases m) (simp_all add: setMode_def)
lemma numberList_textOp [simp]: "numberList (textOp f s) = numberList s"
  by (simp add: textOp_def Let_def)
lemma numberList_save [simp]: "numberList (state_of (save E s)) = numberList s"
  by (simp add: save_def split: option.splits)

lemma snd_state_of_Pair [simp]: "snd (state_of (map_outcome (Pair fr) r)) = state_of r"
  by (cases r) simp_all
lemma fst_state_of_Pair [simp]: "fst (state_of (map_outcome (Pair fr) r)) = fr"
  by (cases r) simp_all

lemma numberList_funpow:
  "(\<And>x. numberList (f x) = numberList x) \<Longrightarrow> numberList (((f::editor \<Rightarrow> editor) ^^ n) s) = numberList s"
  by (induction n) simp_all

lemma numberList_repeat [simp]:
  "(\<And>x. numberList (f x) = numberList x) \<Longrightarrow>
   numberList (state_of (repeat k lim f s)) = numberList s"
  by (simp add: repeat_def numberList_funpow split: option.splits)

lemma numberList_then_do [simp]:
  "(\<And>x. numberList (f x) = numberList x) \<Longrightarrow>
   numberList (state_of (then_do r f)) = numberList (state_of r)"
  by (cases r) simp_all

lemma numberList_processFnKeyEvent [simp]:
  "numberList (state_of (processFnKeyEvent E e s)) = numberList s"
  by (simp add: processFnKeyEvent_def openWithDialog_def)

lemma state_of_map_outcome [simp]: "state_of (map_outcome f r) = f (state_of r)"
  by (cases r) simp_all

lemma numberList_ReadWrite [simp]:
  "(\<And>x. numberList (state_of (body x)) = numberList x) \<Longrightarrow>
   numberList (state_of (ReadWrite body s)) = numberList s"
  by (simp add: ReadWrite_def)
lemma numberList_ReadWriteSingleUndo [simp]:
  "(\<And>x. numberList (state_of (body x)) = numberList x) \<Longrightarrow>
   numberList (state_of (ReadWriteSingleUndo body s)) = numberList s"
  by (simp add: ReadWriteSingleUndo_def)
lemma numberList_SingleUndo [simp]:
  "(\<And>x. numberList (state_of (body x)) = numberList x) \<Longrightarrow>
   numberList (state_of (SingleUndo body s)) = numberList s"
  by (simp add: SingleUndo_def)

lemma numberList_movement_plain3:
  "numberList (snd (state_of (movement_plain3 E e fr s))) = numberList s"
  by (simp add: movement_plain3_def Let_def)

lemma numberList_indent_branch [simp]:
  "numberList (snd (state_of (indent_branch f fr s))) = numberList s"
  by (simp add: indent_branch_def indent_loop_def split: option.splits)

lemma numberList_movement_plain2:
  "numberList (snd (state_of (movement_plain2 E e fr ci s))) = numberList s"
  by (simp add: movement_plain2_def Let_def numberList_movement_plain3 split: option.splits)

lemma numberList_movement_plain:
  "NUMSETKEYS (ekey e) = None \<Longrightarrow>
   numberList (snd (state_of (movement_plain E e m fr ci s))) = numberList s"
  by (simp add: movement_plain_def Let_def numberList_movement_plain2)

subsection \<open>Digit keys, and which branches return\<close>

lemma NUMSETKEYS_digit_strings: "NUMSETKEYS k = Some d \<Longrightarrow> d \<in> set digit_strings"
  by (auto simp: NUMSETKEYS_def digit_strings_def Key_0_def split: if_splits)

lemma numberList_processNumberPrefix:
  "NUMSETKEYS k = Some d \<Longrightarrow>
   numberList (fst (processNumberPrefix k s)) =
     (if d = ''0'' \<and> numberList s = [] then [] else numberList s @ [d])"
  by (simp add: processNumberPrefix_def)

lemma snd_processNumberPrefix:
  "NUMSETKEYS k = Some d \<Longrightarrow>
   snd (processNumberPrefix k s) = (d = ''0'' \<and> numberList s = [])"
  by (simp add: processNumberPrefix_def)

lemma mode_processNumberPrefix [simp]: "mode (fst (processNumberPrefix k s)) = mode s"
  by (simp add: processNumberPrefix_def Let_def)

lemma buf_processNumberPrefix [simp]: "buf (fst (processNumberPrefix k s)) = buf s"
  by (simp add: processNumberPrefix_def Let_def)

lemma prefix_ok_Nil [simp]: "prefix_ok []"
  by (simp add: prefix_ok_def)

lemma prefix_ok_snoc:
  "prefix_ok ds \<Longrightarrow> d \<in> set digit_strings \<Longrightarrow> \<not> (d = ''0'' \<and> ds = []) \<Longrightarrow> prefix_ok (ds @ [d])"
  by (cases ds) (auto simp: prefix_ok_def)

lemma getNumberPrefix_None:
  "(getNumberPrefix lim s = None) = (numberList s \<noteq> [] \<and> py_int (concat (numberList s)) = None)"
  by (simp add: getNumberPrefix_def split: option.splits)

lemma returned_map_outcome [simp]: "returned (map_outcome f r) = returned r"
  by (cases r) simp_all
lemma returned_then_do [simp]: "returned (then_do r f) = returned r"
  by (cases r) simp_all
lemma returned_repeat [simp]: "returned (repeat k lim f s) = (getNumberPrefix lim s \<noteq> None)"
  by (simp add: repeat_def split: option.splits)
lemma returned_ReadWrite [simp]:
  "returned (ReadWrite body s) = returned (body (on_buf (setReadOnly False) s))"
  by (simp add: ReadWrite_def)
lemma returned_ReadWriteSingleUndo [simp]:
  "returned (ReadWriteSingleUndo body s) =
   returned (body (on_buf (setReadOnly False) (on_buf beginUndoAction s)))"
  by (simp add: ReadWriteSingleUndo_def)
lemma returned_SingleUndo [simp]:
  "returned (SingleUndo body s) = returned (body (on_buf beginUndoAction s))"
  by (simp add: SingleUndo_def)

lemma numberList_typing_mode [simp]:
  "numberList (snd (state_of (typing_mode E e m fr s))) = numberList s"
  by (cases m) (simp_all add: typing_mode_def)

lemma clear_typing_mode [simp]:
  "clearnumberList (fst (state_of (typing_mode E e m fr s))) = clearnumberList fr"
  by (cases m) (simp_all add: typing_mode_def)

lemma returned_typing_mode:
  "returned (processFnKeyEvent E e s) \<Longrightarrow> returned (typing_mode E e m fr s)"
  by (cases m) (simp_all add: typing_mode_def)
lemma numberList_command_mode [simp]: "numberList (command_mode e s) = numberList s"
  by (simp add: command_mode_def processCommand_def)
lemma numberList_replacechar_mode [simp]:
  "numberList (state_of (replacechar_mode e s)) = numberList s"
  by (simp add: replacechar_mode_def)
lemma numberList_findchar_mode [simp]: "numberList (findchar_mode E e s) = numberList s"
  by (simp add: findchar_mode_def Let_def)

lemma returned_replacechar_mode [simp]: "returned (replacechar_mode e s)"
  by (simp add: replacechar_mode_def)

lemma returned_movement_plain3:
  "returned (processFnKeyEvent E e s) \<Longrightarrow> returned (movement_plain3 E e fr s)"
  by (simp add: movement_plain3_def Let_def)

lemma getNumberPrefix_True:
  "getNumberPrefix True s = map_option (\<lambda>n. min n (lines (buf s))) (getNumberPrefix False s)"
  by (simp add: getNumberPrefix_def split: option.splits)

lemma getNumberPrefix_False_on_buf [simp]:
  "getNumberPrefix False (on_buf f s) = getNumberPrefix False s"
  by (simp add: getNumberPrefix_def on_buf_def split: option.splits)

lemma returned_indent_branch:
  "getNumberPrefix False s = Some n \<Longrightarrow> returned (indent_branch f fr s)"
  by (simp add: indent_branch_def)

lemma returned_movement_plain2:
  "getNumberPrefix False s = Some n \<Longrightarrow> returned (processFnKeyEvent E e s) \<Longrightarrow>
   returned (movement_plain2 E e fr ci s)"
  by (simp add: movement_plain2_def Let_def getNumberPrefix_True returned_indent_branch
      returned_movement_plain3)

lemma returned_movement_plain:
  "getNumberPrefix False s = Some n \<Longrightarrow> returned (processFnKeyEvent E e s) \<Longrightarrow>
   returned (movement_plain E e m fr ci s)"
  by (simp add: movement_plain_def Let_def getNumberPrefix_True returned_movement_plain2
      split: prod.splits)

lemma returned_movement_mode:
  "getNumberPrefix False s = Some n \<Longrightarrow> returned (processFnKeyEvent E e s) \<Longrightarrow>
   returned (movement_mode E e m fr ci s)"
  by (cases m)
    (simp_all add: movement_mode_def Let_def getNumberPrefix_True returned_movement_plain)

lemma clear_indent_branch [simp]:
  "clearnumberList (fst (state_of (indent_branch f fr s))) = clearnumberList fr"
  by (simp add: indent_branch_def split: option.splits)

lemma clear_movement_plain3:
  "clearnumberList (fst (state_of (movement_plain3 E e fr s))) =
     (clearnumberList fr \<and>
      (etext e \<in> set [''f'', ''F'', '';'', '','', ''d'', ''D'', ''c'', ''C'', ''y'', ''Y'', ''v'',
                       ''V'', ''*'', ''#'', ''n'', ''N'']
       \<or> ekey e \<in> {Key_F1, Key_F2, Key_F3}))"
  by (simp add: movement_plain3_def Let_def)

lemma clear_movement_plain2:
  "clearnumberList (fst (state_of (movement_plain2 E e fr ci s))) =
     (clearnumberList fr \<and>
      (etext e \<in> set [''o'', ''O'', ''g'', ''r'', ''$'', ''A'', ''I'', ''J'', ''W'', ''E'', ''B'',
                       ''G'', ''x'', ''X'', ''>'', ''<'', ''p'', ''P'', ''f'', ''F'', '';'', '','',
                       ''d'', ''D'', ''c'', ''C'', ''y'', ''Y'', ''v'', ''V'', ''*'', ''#'', ''n'',
                       ''N'']
       \<or> ekey e \<in> {Key_F1, Key_F2, Key_F3}))"
  by (simp add: movement_plain2_def Let_def clear_movement_plain3 split: option.splits)

lemma clear_movement_plain:
  "NUMSETKEYS (ekey e) = None \<Longrightarrow>
   clearnumberList (fst (state_of (movement_plain E e m fr ci s))) =
     (clearnumberList fr \<and> \<not> unmapped e)"
  by (simp add: movement_plain_def Let_def clear_movement_plain2 unmapped_def
      movement_texts_def movement_keys_def)

subsection \<open>The dispatch as a whole\<close>

lemma numberList_movement_mode:
  "NUMSETKEYS (ekey e) = None \<or> \<not> (m = NoModifier \<or> m = ShiftModifier) \<Longrightarrow>
   numberList (snd (state_of (movement_mode E e m fr ci s))) = numberList s"
  by (auto simp: movement_mode_def Let_def numberList_movement_plain)

lemma clear_movement_mode:
  "NUMSETKEYS (ekey e) = None \<or> \<not> (m = NoModifier \<or> m = ShiftModifier) \<Longrightarrow>
   clearnumberList (fst (state_of (movement_mode E e m fr ci s))) =
     (clearnumberList fr \<and> \<not> ((m = NoModifier \<or> m = ShiftModifier) \<and> unmapped e))"
  by (auto simp: movement_mode_def Let_def clear_movement_plain)

lemma movement_mode_digit:
  "NUMSETKEYS (ekey e) = Some d \<Longrightarrow> m = NoModifier \<or> m = ShiftModifier \<Longrightarrow>
   movement_mode E e m fr ci s =
     Returned (fr\<lparr>clearnumberList := (d = ''0'' \<and> numberList s = [])\<rparr>,
               if etext e = ''0'' \<and> d = ''0'' \<and> numberList s = []
               then on_buf sci_HOME (fst (processNumberPrefix (ekey e) s))
               else fst (processNumberPrefix (ekey e) s))"
  by (auto simp: movement_mode_def movement_plain_def Let_def processNumberPrefix_def)

lemma numberList_epilogue [simp]:
  "numberList (epilogue E e fr ci s) = (if clearnumberList fr then [] else numberList s)"
  by (simp add: epilogue_def Let_def split: prod.splits)

lemma eff_mods_plain: "(eff_mods e = NoModifier \<or> eff_mods e = ShiftModifier) = plain_modifiers e"
  by (auto simp: eff_mods_def plain_modifiers_def)

lemma dispatch_Movement:
  "mode s = Some Movement \<Longrightarrow>
   dispatch E e s =
     movement_mode E e (eff_mods e)
       \<lparr>process = False, clearnumberList = True, curLine = fst (getCursorPosition (buf s))\<rparr>
       (snd (getCursorPosition (buf s))) s"
  by (simp add: dispatch_def eff_mods_def Let_def split: prod.splits)

lemma keyPressEvent_Returned:
  "returned (dispatch E e s) \<Longrightarrow>
   keyPressEvent E e s =
     Returned (epilogue E e (fst (state_of (dispatch E e s)))
                 (snd (getCursorPosition (buf s))) (snd (state_of (dispatch E e s))))"
  by (cases "dispatch E e s") (auto simp: keyPressEvent_def)

lemma numberList_dispatch_other:
  "mode s \<noteq> Some Movement \<Longrightarrow> numberList (snd (state_of (dispatch E e s))) = numberList s"
  by (cases "mode s")
    (auto simp: dispatch_def Let_def split: prod.splits EditorMode.splits)

lemma clear_dispatch_other:
  "mode s \<noteq> Some Movement \<Longrightarrow> clearnumberList (fst (state_of (dispatch E e s)))"
  by (cases "mode s")
    (auto simp: dispatch_def Let_def split: prod.splits EditorMode.splits)

lemma returned_dispatch:
  "getNumberPrefix False s = Some n \<Longrightarrow> returned (processFnKeyEvent E e s) \<Longrightarrow>
   returned (dispatch E e s)"
  by (cases "mode s")
    (auto simp: dispatch_def Let_def returned_movement_mode returned_typing_mode
      split: prod.splits EditorMode.splits)

lemma keyPressEvent_Raised:
  "\<not> returned (dispatch E e s) \<Longrightarrow>
   keyPressEvent E e s = Raised (snd (state_of (dispatch E e s)))"
  by (cases "dispatch E e s") (auto simp: keyPressEvent_def)

section \<open>setMode is idempotent\<close>

text \<open>
  C8 (as amended).  For every mode \<open>m\<close> and every state, a second \<^verbatim>\<open>setMode(m)\<close> right
  after the first changes nothing at all and emits nothing.  The two calls together emit
  exactly one mode-changed notification when the widget was in another mode (or in none)
  before, and no notification when it already was in mode \<open>m\<close>.
\<close>

theorem setMode_twice:
  "setMode m (setMode m s) = setMode m s
   \<and> (mode s \<noteq> Some m \<longrightarrow>
        emitted (setMode m (setMode m s)) = emitted s @ [ModeChanged m])
   \<and> (mode s = Some m \<longrightarrow> emitted (setMode m (setMode m s)) = emitted s)"
  by (cases m) (auto simp: setMode_def emit_def on_buf_def)

theorem setMode_twice_witness:
  "emitted (setMode Typing (setMode Typing (init_editor init_buf)))
     = [ModeChanged Movement, ModeChanged Typing]
   \<and> emitted (setMode Movement (setMode Movement (init_editor init_buf)))
     = [ModeChanged Movement]"
  using setMode_twice [of Typing "init_editor init_buf"]
    setMode_twice [of Movement "init_editor init_buf"]
  by (simp add: setMode_def init_editor_def emit_def on_buf_def)

text \<open>Right after \<^verbatim>\<open>__init__\<close> the widget is in Movement mode: two calls of
  \<^verbatim>\<open>setMode(Movement)\<close> emit no notification, not one.\<close>

theorem setMode_twice_counterexample:
  "emitted (setMode Movement (setMode Movement (init_editor init_buf)))
     = emitted (init_editor init_buf)
   \<and> emitted (setMode Movement (setMode Movement (init_editor init_buf)))
     \<noteq> emitted (init_editor init_buf) @ [ModeChanged Movement]"
  by (simp add: setMode_def init_editor_def emit_def on_buf_def)

section \<open>The number prefix in reachable states\<close>

lemma numberList_keyPressEvent:
  "numberList (state_of (keyPressEvent E e s)) =
     (if returned (dispatch E e s) \<and> clearnumberList (fst (state_of (dispatch E e s))) then []
      else numberList (snd (state_of (dispatch E e s))))"
  by (cases "dispatch E e s") (auto simp: keyPressEvent_def)

lemma prefix_ok_dispatch:
  assumes "prefix_ok (numberList s)"
  shows "prefix_ok (numberList (snd (state_of (dispatch E e s))))"
proof (cases "mode s = Some Movement")
  case False
  then show ?thesis
    using assms by (simp add: numberList_dispatch_other)
next
  case True
  note dm = dispatch_Movement [OF True]
  show ?thesis
  proof (cases "plain_modifiers e \<and> NUMSETKEYS (ekey e) \<noteq> None")
    case True
    then obtain d where d: "NUMSETKEYS (ekey e) = Some d" by blast
    from True have pm: "eff_mods e = NoModifier \<or> eff_mods e = ShiftModifier"
      by (simp add: eff_mods_plain)
    have "d \<in> set digit_strings" by (rule NUMSETKEYS_digit_strings [OF d])
    with assms show ?thesis
      by (auto simp: dm movement_mode_digit [OF d pm]
          numberList_processNumberPrefix [OF d] intro: prefix_ok_snoc)
  next
    case False
    then have c: "NUMSETKEYS (ekey e) = None
        \<or> \<not> (eff_mods e = NoModifier \<or> eff_mods e = ShiftModifier)"
      by (auto simp: eff_mods_plain)
    show ?thesis
      using assms by (simp add: dm numberList_movement_mode [OF c])
  qed
qed

lemma prefix_ok_keyPressEvent:
  assumes "prefix_ok (numberList s)"
  shows "prefix_ok (numberList (state_of (keyPressEvent E e s)))"
  using prefix_ok_dispatch [OF assms, of E e] by (simp add: numberList_keyPressEvent)

lemma reachable_prefix_ok: "reachable s \<Longrightarrow> prefix_ok (numberList s)"
proof (induction rule: reachable.induct)
  case (reachable_init b)
  show ?case by (simp add: init_editor_def)
next
  case (reachable_key s E e)
  then show ?case by (simp add: prefix_ok_keyPressEvent)
qed

lemma keyPressEvent_digit:
  assumes "mode s = Some Movement" "plain_modifiers e" "NUMSETKEYS (ekey e) = Some d"
    and "\<not> (d = ''0'' \<and> numberList s = [])"
  shows "keyPressEvent E e s =
    Returned (s\<lparr>numberList := numberList s @ [d],
                prevWasEscapeFirst := prevWasEscapeFirst s \<and> etext e = ESCAPEFIRST\<rparr>)"
proof -
  from assms(2) have pm: "eff_mods e = NoModifier \<or> eff_mods e = ShiftModifier"
    by (simp add: eff_mods_plain)
  have "dispatch E e s =
      Returned (\<lparr>process = False, clearnumberList = False,
                  curLine = fst (getCursorPosition (buf s))\<rparr>,
                s\<lparr>numberList := numberList s @ [d]\<rparr>)"
    using assms(4)
    by (auto simp: dispatch_Movement [OF assms(1)] movement_mode_digit [OF assms(3) pm]
        processNumberPrefix_def assms(3))
  then show ?thesis
    by (cases "getCursorPosition (buf s)")
      (auto simp: keyPressEvent_def epilogue_def Let_def)
qed


lemma mode_init [simp]: "mode (init_editor b) = Some Movement"
  by (simp add: init_editor_def setMode_def emit_def on_buf_def)
lemma numberList_init [simp]: "numberList (init_editor b) = []"
  by (simp add: init_editor_def)

lemma NUMSETKEYS_digit_event:
  "NUMSETKEYS (ekey (digit_event (CHR ''0''))) = Some ''0''"
  "NUMSETKEYS (ekey (digit_event (CHR ''1''))) = Some ''1''"
  "NUMSETKEYS (ekey (digit_event (CHR ''2''))) = Some ''2''"
  "NUMSETKEYS (ekey (digit_event (CHR ''3''))) = Some ''3''"
  "NUMSETKEYS (ekey (digit_event (CHR ''4''))) = Some ''4''"
  "NUMSETKEYS (ekey (digit_event (CHR ''5''))) = Some ''5''"
  "NUMSETKEYS (ekey (digit_event (CHR ''6''))) = Some ''6''"
  "NUMSETKEYS (ekey (digit_event (CHR ''7''))) = Some ''7''"
  "NUMSETKEYS (ekey (digit_event (CHR ''8''))) = Some ''8''"
  "NUMSETKEYS (ekey (digit_event (CHR ''9''))) = Some ''9''"
  by (simp_all add: NUMSETKEYS_def digit_event_def Key_0_def)

lemma plain_digit_event [simp]: "plain_modifiers (digit_event c)"
  by (simp add: plain_modifiers_def digit_event_def)


text \<open>
  C9.  In every reachable state of the widget the number list does not begin with
  \<^verbatim>\<open>0\<close>, and \<^verbatim>\<open>getNumberPrefix\<close> returns (it does not raise) an integer that is at
  least 1, with and without \<^verbatim>\<open>limitByMaxLines\<close>.
\<close>

theorem number_prefix_positive:
  assumes "reachable s"
  shows "(numberList s = [] \<or> hd (numberList s) \<noteq> ''0'')
    \<and> (\<exists>n. getNumberPrefix False s = Some n \<and> 1 \<le> n)
    \<and> (\<exists>n. getNumberPrefix True s = Some n \<and> 1 \<le> n)"
proof -
  from assms have ok: "prefix_ok (numberList s)" by (rule reachable_prefix_ok)
  then have "numberList s = [] \<or> hd (numberList s) \<noteq> ''0''"
    by (simp add: prefix_ok_def)
  with getNumberPrefix_prefix_ok [OF ok] show ?thesis by blast
qed


theorem number_prefix_positive_witness:
  "reachable (keyPressEvents idle_env [digit_event (CHR ''1''), digit_event (CHR ''0'')]
                (init_editor init_buf))
   \<and> numberList (keyPressEvents idle_env [digit_event (CHR ''1''), digit_event (CHR ''0'')]
                (init_editor init_buf)) = [''1'', ''0'']
   \<and> getNumberPrefix False
        (keyPressEvents idle_env [digit_event (CHR ''1''), digit_event (CHR ''0'')]
           (init_editor init_buf)) = Some 10
   \<and> getNumberPrefix True
        (keyPressEvents idle_env [digit_event (CHR ''1''), digit_event (CHR ''0'')]
           (init_editor init_buf)) = Some 1"
proof -
  let ?s = "keyPressEvents idle_env [digit_event (CHR ''1''), digit_event (CHR ''0'')]
              (init_editor init_buf)"
  have r: "reachable ?s"
    by (simp add: reachable_key reachable_init)
  have nl: "numberList ?s = [''1'', ''0'']"
    by (simp add: keyPressEvent_digit NUMSETKEYS_digit_event)
  have b: "buf ?s = buf (init_editor init_buf)"
    by (simp add: keyPressEvent_digit NUMSETKEYS_digit_event)
  from number_prefix_positive [OF r] nl b r show ?thesis
    by (simp add: getNumberPrefix_def py_int_def dv lines_def init_editor_def setMode_def
        emit_def on_buf_def init_buf_def setReadOnly_def sci_SETCARETSTYLE_def)
qed

section \<open>The number list after a key without a command\<close>

lemma movement_plain3_unmapped:
  assumes "unmapped e"
  shows "movement_plain3 E e fr s = Returned (fr\<lparr>clearnumberList := False\<rparr>, s)"
  using assms
  by (simp add: movement_plain3_def Let_def unmapped_def movement_texts_def movement_keys_def)

lemma movement_plain2_unmapped:
  assumes "unmapped e"
  shows "movement_plain2 E e fr ci s = Returned (fr\<lparr>clearnumberList := False\<rparr>, s)"
  using assms movement_plain3_unmapped [OF assms, of E fr s]
  by (simp add: movement_plain2_def Let_def unmapped_def movement_texts_def)

lemma movement_plain_unmapped:
  assumes "unmapped e"
  shows "movement_plain E e m fr ci s = Returned (fr\<lparr>clearnumberList := False\<rparr>, s)"
  using assms movement_plain2_unmapped [OF assms, of E fr ci s]
  by (simp add: movement_plain_def Let_def unmapped_def movement_texts_def movement_keys_def)

text \<open>In Movement mode a key that comes with no modifier or Shift and has no branch in
  the chain is handled to the end, and the number list is the one from before.\<close>

lemma keyPressEvent_unmapped:
  assumes "mode s = Some Movement" and "plain_modifiers e" and "unmapped e"
  shows "returned (keyPressEvent E e s)
    \<and> numberList (state_of (keyPressEvent E e s)) = numberList s"
proof -
  from assms(2) have pm: "eff_mods e = NoModifier \<or> eff_mods e = ShiftModifier"
    by (simp add: eff_mods_plain)
  have "dispatch E e s =
      Returned (\<lparr>process = False, clearnumberList = False,
                  curLine = fst (getCursorPosition (buf s))\<rparr>, s)"
    using pm
    by (auto simp: dispatch_Movement [OF assms(1)] movement_mode_def
        movement_plain_unmapped [OF assms(3)])
  then show ?thesis
    by (simp add: keyPressEvent_def)
qed

lemma unmapped_z: "unmapped (letter_event (CHR ''z''))"
  by (simp add: unmapped_def letter_event_def NUMSETKEYS_def movement_texts_def
      movement_keys_def key_defs)

lemma plain_letter_event [simp]: "plain_modifiers (letter_event c)"
  by (simp add: plain_modifiers_def letter_event_def)

lemma state_after_3:
  "keyPressEvents idle_env [digit_event (CHR ''3'')] (init_editor init_buf)
   = (init_editor init_buf)\<lparr>numberList := [''3''], prevWasEscapeFirst := False\<rparr>"
  by (simp add: keyPressEvent_digit NUMSETKEYS_digit_event)
     (simp add: init_editor_def setMode_def emit_def on_buf_def digit_event_def ESCAPEFIRST_def)

text \<open>
  C6 (not met by the code).  The handler's comments say when the number list is kept:
  ``clearnumberList is set to false when the char is a number'', and in the last
  \<^verbatim>\<open>else\<close> of the chain ``probably single modifier key pressed''.  That \<^verbatim>\<open>else\<close>
  takes every key without a branch.  In Movement mode with \<^verbatim>\<open>3\<close> in the number list,
  the key \<^verbatim>\<open>z\<close> with no modifier (its text is \<^verbatim>\<open>z\<close>, not empty, and it is no digit)
  leaves the list as it is, \<^verbatim>\<open>['3']\<close>, where the claim has it empty.
\<close>

theorem unmapped_key_keeps_prefix:
  "mode (keyPressEvents idle_env [digit_event (CHR ''3'')] (init_editor init_buf))
     = Some Movement
   \<and> etext (letter_event (CHR ''z'')) = ''z''
   \<and> numberList (keyPressEvents idle_env [digit_event (CHR ''3''), letter_event (CHR ''z'')]
        (init_editor init_buf)) = [''3'']"
proof -
  let ?s = "(init_editor init_buf)\<lparr>numberList := [''3''], prevWasEscapeFirst := False\<rparr>"
  have mv: "mode ?s = Some Movement" by simp
  from keyPressEvent_unmapped [OF mv plain_letter_event unmapped_z, of idle_env]
  have "numberList (state_of (keyPressEvent idle_env (letter_event (CHR ''z'')) ?s)) = [''3'']"
    by simp
  then show ?thesis
    using state_after_3 by (simp add: letter_event_def)
qed

section \<open>Lines and positions\<close>

lemma line_of_Cons:
  "line_of (c # cs) (Suc p) = (if c = newline then Suc (line_of cs p) else line_of cs p)"
  by (simp add: line_of_def)

lemma line_of_0 [simp]: "line_of s 0 = 0"
  by (simp add: line_of_def)

lemma line_of_Nil [simp]: "line_of [] p = 0"
  by (simp add: line_of_def)

text \<open>The start of the caret's line is on that line, and not behind the caret.\<close>

lemma line_of_line_start: "line_of s (line_start s (line_of s p)) = line_of s p"
proof (induction s arbitrary: p)
  case Nil
  show ?case by simp
next
  case (Cons c cs)
  show ?case
  proof (cases p)
    case 0
    then show ?thesis by simp
  next
    case (Suc q)
    show ?thesis
    proof (cases "c = newline")
      case True
      with Suc Cons.IH [of q] show ?thesis by (simp add: line_of_Cons)
    next
      case False
      with Suc Cons.IH [of q] show ?thesis
        by (cases "line_of cs q") (simp_all add: line_of_Cons)
    qed
  qed
qed

lemma line_start_le: "p \<le> length s \<Longrightarrow> line_start s (line_of s p) \<le> p"
proof (induction s arbitrary: p)
  case Nil
  then show ?case by simp
next
  case (Cons c cs)
  show ?case
  proof (cases p)
    case 0
    then show ?thesis by simp
  next
    case (Suc q)
    with Cons.prems have q: "q \<le> length cs" by simp
    from Cons.IH [OF q] Suc show ?thesis
      by (cases "line_of cs q") (auto simp: line_of_Cons)
  qed
qed

lemma getCursorPosition_sci_HOME:
  "getCursorPosition (sci_HOME b) = (fst (getCursorPosition b), 0)"
  by (simp add: getCursorPosition_def sci_HOME_def lineIndexFromPosition_def Let_def
      line_of_line_start)

section \<open>The key 0 in Movement mode\<close>

lemma NUMSETKEYS_Key_0 [simp]: "NUMSETKEYS Key_0 = Some ''0''"
  by (simp add: NUMSETKEYS_def)

lemma keyPressEvent_zero_empty:
  assumes "mode s = Some Movement" "plain_modifiers e" "ekey e = Key_0" "etext e = ''0''"
    and "numberList s = []"
  shows "\<exists>s'. keyPressEvent E e s = Returned s' \<and> numberList s' = []
           \<and> buf s' = sci_HOME (buf s) \<and> mode s' = Some Movement"
proof -
  from assms(2) have pm: "eff_mods e = NoModifier \<or> eff_mods e = ShiftModifier"
    by (simp add: eff_mods_plain)
  have d: "NUMSETKEYS (ekey e) = Some ''0''" by (simp add: assms(3))
  have "dispatch E e s =
      Returned (\<lparr>process = False, clearnumberList = True,
                  curLine = fst (getCursorPosition (buf s))\<rparr>,
                on_buf sci_HOME (fst (processNumberPrefix (ekey e) s)))"
    using assms(4,5)
    by (simp add: dispatch_Movement [OF assms(1)] movement_mode_digit [OF d pm])
  then show ?thesis
    using assms(1)
    by (simp add: keyPressEvent_def epilogue_def Let_def emit_def on_buf_def
        split: prod.splits)
qed

text \<open>
  C7.  In Movement mode, with no modifier or Shift, the key \<^verbatim>\<open>0\<close> on an empty number
  list stores nothing and sends SCI_HOME, which puts the caret at column 0 of its line;
  on a non-empty list it is appended like any digit and the buffer, the caret with it,
  stays as it is.
\<close>

theorem zero_key:
  assumes "mode s = Some Movement" "plain_modifiers e" "ekey e = Key_0" "etext e = ''0''"
  shows "\<exists>s'. keyPressEvent E e s = Returned s' \<and>
    (if numberList s = []
     then numberList s' = [] \<and> buf s' = sci_HOME (buf s)
          \<and> getCursorPosition (buf s') = (fst (getCursorPosition (buf s)), 0)
     else numberList s' = numberList s @ [''0''] \<and> buf s' = buf s)"
proof (cases "numberList s = []")
  case True
  from keyPressEvent_zero_empty [OF assms True, of E] show ?thesis
    using True by (auto simp: getCursorPosition_sci_HOME)
next
  case False
  have d: "NUMSETKEYS (ekey e) = Some ''0''" by (simp add: assms(3))
  from False have "\<not> (''0'' = ''0'' \<and> numberList s = [])" by simp
  from keyPressEvent_digit [OF assms(1,2) d this, of E] False show ?thesis
    by simp
qed

theorem zero_key_witness:
  "getCursorPosition (buf (init_editor (buffer_at ''ab cd'' 3))) = (0, 3)
   \<and> getCursorPosition
        (buf (keyPressEvents idle_env [digit_event (CHR ''0'')]
           (init_editor (buffer_at ''ab cd'' 3)))) = (0, 0)
   \<and> numberList (keyPressEvents idle_env [digit_event (CHR ''0'')]
        (init_editor (buffer_at ''ab cd'' 3))) = []
   \<and> numberList (keyPressEvents idle_env [digit_event (CHR ''0'')]
        ((init_editor (buffer_at ''ab cd'' 3))\<lparr>numberList := [''3'']\<rparr>)) = [''3'', ''0'']
   \<and> getCursorPosition
        (buf (keyPressEvents idle_env [digit_event (CHR ''0'')]
           ((init_editor (buffer_at ''ab cd'' 3))\<lparr>numberList := [''3'']\<rparr>))) = (0, 3)"
proof -
  let ?s = "init_editor (buffer_at ''ab cd'' 3)"
  let ?e = "digit_event (CHR ''0'')"
  have e: "plain_modifiers ?e" "ekey ?e = Key_0" "etext ?e = ''0''"
    by (simp_all add: digit_event_def Key_0_def plain_modifiers_def)
  have p: "getCursorPosition (buf ?s) = (0, 3)"
    by (simp add: init_editor_def setMode_def on_buf_def emit_def buffer_at_def init_buf_def
        setReadOnly_def sci_SETCARETSTYLE_def getCursorPosition_def
        lineIndexFromPosition_def line_of_def newline_def)
  have m1: "mode ?s = Some Movement" by simp
  have m2: "mode (?s\<lparr>numberList := [''3'']\<rparr>) = Some Movement" by simp
  from zero_key [OF m1 e, of idle_env] zero_key [OF m2 e, of idle_env] p
  show ?thesis by auto
qed

section \<open>A count and a motion\<close>

lemma caret_init [simp]: "caret (buf (init_editor b)) = caret b"
  "anchor (buf (init_editor b)) = anchor b" "content (buf (init_editor b)) = content b"
  by (simp_all add: init_editor_def setMode_def on_buf_def emit_def setReadOnly_def
      sci_SETCARETSTYLE_def)

lemma NUMSETKEYS_digit_event_gen:
  assumes "[c] \<in> set digit_strings"
  shows "NUMSETKEYS (ekey (digit_event c)) = Some [c]"
proof -
  from assms consider "c = CHR ''0''" | "c = CHR ''1''" | "c = CHR ''2''" | "c = CHR ''3''"
    | "c = CHR ''4''" | "c = CHR ''5''" | "c = CHR ''6''" | "c = CHR ''7''" | "c = CHR ''8''"
    | "c = CHR ''9''"
    unfolding digit_strings_def by fastforce
  then show ?thesis by cases (simp_all add: NUMSETKEYS_digit_event)
qed

lemma digit_not_ESCAPEFIRST: "[c] \<in> set digit_strings \<Longrightarrow> etext (digit_event c) \<noteq> ESCAPEFIRST"
  by (auto simp: digit_strings_def digit_event_def ESCAPEFIRST_def)

lemma keyPressEvents_digits:
  assumes "mode s = Some Movement"
    and "list_all (\<lambda>c. [c] \<in> set digit_strings) ds"
    and "numberList s \<noteq> [] \<or> ds = [] \<or> hd ds \<noteq> CHR ''0''"
  shows "keyPressEvents E (map digit_event ds @ es) s =
    keyPressEvents E es
      (s\<lparr>numberList := numberList s @ map (\<lambda>c. [c]) ds,
         prevWasEscapeFirst := prevWasEscapeFirst s \<and> ds = []\<rparr>)"
  using assms
proof (induction ds arbitrary: s)
  case Nil
  then show ?case by simp
next
  case (Cons c ds)
  from Cons.prems(2) have c: "[c] \<in> set digit_strings"
    and ds: "list_all (\<lambda>c. [c] \<in> set digit_strings) ds" by simp_all
  from Cons.prems(3) have nz: "\<not> ([c] = ''0'' \<and> numberList s = [])" by auto
  let ?s1 = "s\<lparr>numberList := numberList s @ [[c]], prevWasEscapeFirst := False\<rparr>"
  have step: "keyPressEvent E (digit_event c) s = Returned ?s1"
    using keyPressEvent_digit [OF Cons.prems(1) plain_digit_event
        NUMSETKEYS_digit_event_gen [OF c] nz, of E] digit_not_ESCAPEFIRST [OF c]
    by simp
  have "keyPressEvents E (map digit_event ds @ es) ?s1 =
    keyPressEvents E es
      (?s1\<lparr>numberList := numberList ?s1 @ map (\<lambda>c. [c]) ds,
           prevWasEscapeFirst := prevWasEscapeFirst ?s1 \<and> ds = []\<rparr>)"
    by (rule Cons.IH) (simp_all add: Cons.prems(1) ds)
  with step show ?case by simp
qed

lemma funpow_on_buf: "(on_buf f ^^ n) s = on_buf (f ^^ n) s"
  by (induction n) (simp_all add: on_buf_def)

lemma caret_CHARRIGHT_funpow:
  "caret b = anchor b \<Longrightarrow> caret b \<le> length (content b) \<Longrightarrow>
   caret ((sci_CHARRIGHT ^^ n) b) = min (caret b + n) (length (content b))
   \<and> anchor ((sci_CHARRIGHT ^^ n) b) = caret ((sci_CHARRIGHT ^^ n) b)
   \<and> content ((sci_CHARRIGHT ^^ n) b) = content b"
  by (induction n) (auto simp: sci_CHARRIGHT_def Let_def)

lemma movement_plain_motion:
  assumes "motion_of E e = Some (rep, step)" and "m \<noteq> ControlModifier"
  shows "movement_plain E e m fr ci s =
    (case rep of
       Exact \<Rightarrow> map_outcome (Pair fr) (repeat 1 False step s)
     | Clamped k \<Rightarrow> map_outcome (Pair fr) (repeat k True step s)
     | Once \<Rightarrow> Returned (fr, step s))"
  using assms
  by (auto simp: motion_of_def movement_plain_def movement_plain2_def Let_def
      split: if_splits)


lemma buf_epilogue:
  "\<not> process fr \<Longrightarrow> buf (epilogue E e fr ci s) = buf s"
  by (simp add: epilogue_def Let_def emit_def split: prod.splits)

lemma keyPressEvent_motion:
  assumes "mode s = Some Movement" and "plain_modifiers e"
    and "motion_of E e = Some (rep, step)" and "getNumberPrefix False s = Some n"
  shows "buf (state_of (keyPressEvent E e s)) = buf ((step ^^ times rep n (lines (buf s))) s)"
proof -
  from assms(2) have pm: "eff_mods e = NoModifier \<or> eff_mods e = ShiftModifier"
    by (simp add: eff_mods_plain)
  then have nc: "eff_mods e \<noteq> ControlModifier" by auto
  let ?fr = "\<lparr>process = False, clearnumberList = True,
               curLine = fst (getCursorPosition (buf s))\<rparr>"
  have "dispatch E e s = Returned (?fr, (step ^^ times rep n (lines (buf s))) s)"
    using pm assms(4)
    by (cases rep)
      (auto simp: dispatch_Movement [OF assms(1)] movement_mode_def
        movement_plain_motion [OF assms(3) nc] repeat_def getNumberPrefix_True)
  then show ?thesis
    by (simp add: keyPressEvent_def buf_epilogue)
qed

lemma motion_of_l:
  "motion_of E (letter_event (CHR ''l'')) = Some (Exact, on_buf sci_CHARRIGHT)"
  by (simp add: motion_of_def letter_event_def NUMSETKEYS_def key_defs)


text \<open>
  C2 (as amended).  In Movement mode with an empty number list, let decimal digit keys,
  the first of them not \<^verbatim>\<open>0\<close>, be followed by a motion key (no modifier or Shift).  The
  digit keys only build the number list and leave the buffer alone.  With \<open>n\<close> the value
  \<^verbatim>\<open>int(digits)\<close>, and 1 when there are no digits, the motion then runs its step
  \<^item> exactly \<open>n\<close> times for \<^verbatim>\<open>j\<close>, \<^verbatim>\<open>l\<close>, \<^verbatim>\<open>w\<close>, \<^verbatim>\<open>b\<close>, \<^verbatim>\<open>e\<close>, \<^verbatim>\<open>W\<close>,
    \<^verbatim>\<open>E\<close>, \<^verbatim>\<open>B\<close>;
  \<^item> \<open>min n lines\<close> times for \<^verbatim>\<open>i\<close> and \<^verbatim>\<open>k\<close>, and five times that for
    \<^verbatim>\<open>Backspace\<close> and \<^verbatim>\<open>Return\<close>, the count being capped at the number of lines;
  \<^item> once, whatever the digits, for \<^verbatim>\<open>s\<close>, \<^verbatim>\<open>$\<close> and \<^verbatim>\<open>G\<close>.
  For \<^verbatim>\<open>l\<close> with nothing selected the caret ends \<open>n\<close> positions to the right, or at
  the end of the document when that comes first; so \<^verbatim>\<open>3\<close> then \<^verbatim>\<open>l\<close> moves it right
  by three positions when three characters follow it.
\<close>

theorem count_then_motion:
  assumes "mode s = Some Movement" and "numberList s = []"
    and "list_all (\<lambda>c. [c] \<in> set digit_strings) digits"
    and "digits = [] \<or> hd digits \<noteq> CHR ''0''"
    and "plain_modifiers e" and "motion_of E e = Some (rep, step)"
  shows "\<exists>n. (if digits = [] then n = 1 else py_int digits = Some n)
    \<and> numberList (keyPressEvents E (map digit_event digits) s) = map (\<lambda>c. [c]) digits
    \<and> buf (keyPressEvents E (map digit_event digits) s) = buf s
    \<and> buf (keyPressEvents E (map digit_event digits @ [e]) s)
        = buf ((step ^^ times rep n (lines (buf s)))
                 (keyPressEvents E (map digit_event digits) s))
    \<and> (rep = Exact \<and> step = on_buf sci_CHARRIGHT \<and> caret (buf s) = anchor (buf s)
         \<and> caret (buf s) \<le> length (content (buf s)) \<longrightarrow>
       caret (buf (keyPressEvents E (map digit_event digits @ [e]) s))
         = min (caret (buf s) + n) (length (content (buf s))))"
proof -
  let ?s1 = "s\<lparr>numberList := numberList s @ map (\<lambda>c. [c]) digits,
               prevWasEscapeFirst := prevWasEscapeFirst s \<and> digits = []\<rparr>"
  have c: "numberList s \<noteq> [] \<or> digits = [] \<or> hd digits \<noteq> CHR ''0''"
    using assms(4) by simp
  have run0: "keyPressEvents E (map digit_event digits) s = ?s1"
    using keyPressEvents_digits [OF assms(1,3) c, of E "[]"] by simp
  have run: "keyPressEvents E (map digit_event digits @ [e]) s = keyPressEvents E [e] ?s1"
    by (rule keyPressEvents_digits [OF assms(1,3) c])
  have ok: "prefix_ok (numberList ?s1)"
    using assms(2,3,4)
    by (cases digits) (auto simp: prefix_ok_def list_all_iff)
  from getNumberPrefix_prefix_ok [OF ok, of False] obtain n
    where n: "getNumberPrefix False ?s1 = Some n" by blast
  have val: "if digits = [] then n = 1 else py_int digits = Some n"
    using n assms(2) by (auto simp: getNumberPrefix_def split: if_splits option.splits)
  have m1: "mode ?s1 = Some Movement" using assms(1) by simp
  have b: "buf (keyPressEvents E (map digit_event digits @ [e]) s)
      = buf ((step ^^ times rep n (lines (buf s))) ?s1)"
    using keyPressEvent_motion [OF m1 assms(5,6) n] by (simp add: run)
  have l: "caret (buf s) = anchor (buf s) \<Longrightarrow> caret (buf s) \<le> length (content (buf s)) \<Longrightarrow>
      caret (buf ((on_buf sci_CHARRIGHT ^^ n) ?s1)) = min (caret (buf s) + n) (length (content (buf s)))"
    using caret_CHARRIGHT_funpow [of "buf s" n] by (simp add: funpow_on_buf)
  from val b l show ?thesis
    using assms(2) by (intro exI [of _ n]) (auto simp: run0)
qed


theorem count_then_motion_witness:
  "py_int ''3'' = Some 3
   \<and> caret (buf (init_editor (buffer_at ''abcdef'' 1))) = 1
   \<and> caret (buf (keyPressEvents idle_env (map digit_event ''3'' @ [letter_event (CHR ''l'')])
        (init_editor (buffer_at ''abcdef'' 1)))) = 4"
proof -
  have d: "list_all (\<lambda>c. [c] \<in> set digit_strings) ''3''" "''3'' = [] \<or> hd ''3'' \<noteq> CHR ''0''"
    by (simp_all add: digit_strings_def)
  have p: "py_int ''3'' = Some 3" by (simp add: py_int_def dv)
  from count_then_motion [OF mode_init numberList_init d plain_letter_event motion_of_l,
      of idle_env "buffer_at ''abcdef'' 1"] p
  show ?thesis
    by (auto simp: letter_event_def buffer_at_def init_buf_def)
qed


text \<open>A lone \<^verbatim>\<open>0\<close> is not stored as a count: \<^verbatim>\<open>int("0")\<close> is 0, and a motion run
  0 times would leave the caret at column 3; yet \<^verbatim>\<open>0\<close> then \<^verbatim>\<open>l\<close> sends the caret to
  the start of the line and then one position to the right, to column 1.\<close>

theorem count_then_motion_counterexample:
  "py_int ''0'' = Some 0
   \<and> caret (buf (init_editor (buffer_at ''abcdef'' 3))) = 3
   \<and> caret (buf (keyPressEvents idle_env (map digit_event ''0'' @ [letter_event (CHR ''l'')])
        (init_editor (buffer_at ''abcdef'' 3)))) = 1
   \<and> buf (keyPressEvents idle_env (map digit_event ''0'' @ [letter_event (CHR ''l'')])
        (init_editor (buffer_at ''abcdef'' 3)))
      \<noteq> (sci_CHARRIGHT ^^ 0) (buf (init_editor (buffer_at ''abcdef'' 3)))"
proof -
  let ?s = "init_editor (buffer_at ''abcdef'' 3)"
  let ?e = "digit_event (CHR ''0'')"
  let ?r = "keyPressEvents idle_env (map digit_event ''0'' @ [letter_event (CHR ''l'')]) ?s"
  have e: "plain_modifiers ?e" "ekey ?e = Key_0" "etext ?e = ''0''"
    by (simp_all add: digit_event_def Key_0_def plain_modifiers_def)
  from keyPressEvent_zero_empty [OF mode_init e numberList_init, of idle_env "buffer_at ''abcdef'' 3"]
  obtain s1 where s1: "keyPressEvent idle_env ?e ?s = Returned s1" "numberList s1 = []"
    "buf s1 = sci_HOME (buf ?s)" "mode s1 = Some Movement" by blast
  have n: "getNumberPrefix False s1 = Some 1"
    by (simp add: getNumberPrefix_def s1(2))
  have "buf (state_of (keyPressEvent idle_env (letter_event (CHR ''l'')) s1))
      = buf ((on_buf sci_CHARRIGHT ^^ times Exact 1 (lines (buf s1))) s1)"
    by (rule keyPressEvent_motion [OF s1(4) plain_letter_event motion_of_l n])
  then have "caret (buf ?r) = caret (sci_CHARRIGHT (sci_HOME (buf ?s)))"
    using s1(1,3) by simp
  moreover have "caret (sci_CHARRIGHT (sci_HOME (buf ?s))) = 1"
    by (simp add: sci_CHARRIGHT_def sci_HOME_def Let_def buffer_at_def init_buf_def
        line_of_def newline_def)
  moreover have "py_int ''0'' = Some 0" by (simp add: py_int_def dv)
  moreover have c3: "caret (buf ?s) = 3" by (simp add: buffer_at_def init_buf_def)
  ultimately have "caret (buf ?r) = 1" by simp
  with c3 have "buf ?r \<noteq> (sci_CHARRIGHT ^^ 0) (buf ?s)" by auto
  with \<open>caret (buf ?r) = 1\<close> \<open>py_int ''0'' = Some 0\<close> c3 show ?thesis by blast
qed

section \<open>Scoped undo groups and write access\<close>

lemma undoDepth_begin_end [simp]:
  "undoDepth (endUndoAction b) = undoDepth b - 1"
  "undoDepth (beginUndoAction b) = Suc (undoDepth b)"
  by (simp_all add: endUndoAction_def beginUndoAction_def)

lemma setReadOnly_simps [simp]:
  "readOnly (setReadOnly r b) = r" "undoDepth (setReadOnly r b) = undoDepth b"
  "content (setReadOnly r b) = content b"
  by (simp_all add: setReadOnly_def)

lemma buf_init: "buf (init_editor b) = setReadOnly True (sci_SETCARETSTYLE 2 b)"
  by (simp add: init_editor_def setMode_def emit_def Let_def)

text \<open>
  C5.  Whatever the body of a \<^verbatim>\<open>with\<close> block of \<^verbatim>\<open>ReadWriteSingleUndo\<close>,
  \<^verbatim>\<open>SingleUndo\<close> or \<^verbatim>\<open>ReadWrite\<close> does, and whether it returns or raises,
  \<^verbatim>\<open>__exit__\<close> runs: the undo group that was opened is closed (a body that leaves the
  nesting depth as it found it leaves the buffer at the depth from before the block), the
  buffer, read-only before the block as it is in the modes whose commands use these
  managers, is read-only again after it, and an exception of the body is passed on.
\<close>

theorem scoped_release:
  assumes "readOnly (buf s)"
    and "\<And>t. undoDepth (buf (state_of (body t))) = undoDepth (buf t)"
  shows "undoDepth (buf (state_of (ReadWriteSingleUndo body s))) = undoDepth (buf s)
    \<and> readOnly (buf (state_of (ReadWriteSingleUndo body s))) = readOnly (buf s)
    \<and> returned (ReadWriteSingleUndo body s)
        = returned (body (on_buf (setReadOnly False) (on_buf beginUndoAction s)))
    \<and> undoDepth (buf (state_of (SingleUndo body s))) = undoDepth (buf s)
    \<and> returned (SingleUndo body s) = returned (body (on_buf beginUndoAction s))
    \<and> readOnly (buf (state_of (ReadWrite body s))) = readOnly (buf s)
    \<and> returned (ReadWrite body s) = returned (body (on_buf (setReadOnly False) s))"
  using assms
  by (simp add: ReadWriteSingleUndo_def SingleUndo_def ReadWrite_def)

theorem scoped_release_witness:
  "readOnly (buf (init_editor init_buf))
   \<and> \<not> returned (ReadWriteSingleUndo (\<lambda>t. Raised (on_buf (sci_INSERTTEXT 0 ''x'') t))
          (init_editor init_buf))
   \<and> content (buf (state_of (ReadWriteSingleUndo
          (\<lambda>t. Raised (on_buf (sci_INSERTTEXT 0 ''x'') t)) (init_editor init_buf)))) = ''x''
   \<and> undoDepth (buf (state_of (ReadWriteSingleUndo
          (\<lambda>t. Raised (on_buf (sci_INSERTTEXT 0 ''x'') t)) (init_editor init_buf)))) = 0
   \<and> readOnly (buf (state_of (ReadWriteSingleUndo
          (\<lambda>t. Raised (on_buf (sci_INSERTTEXT 0 ''x'') t)) (init_editor init_buf))))"
proof -
  let ?body = "\<lambda>t. Raised (on_buf (sci_INSERTTEXT 0 ''x'') t)"
  have ro: "readOnly (buf (init_editor init_buf))"
    by (simp add: buf_init)
  have bal: "\<And>t. undoDepth (buf (state_of (?body t))) = undoDepth (buf t)"
    by (simp add: sci_INSERTTEXT_def change_def)
  have d0: "undoDepth (buf (init_editor init_buf)) = 0"
    by (simp add: buf_init init_buf_def sci_SETCARETSTYLE_def)
  have c: "content (buf (state_of (ReadWriteSingleUndo ?body (init_editor init_buf)))) = ''x''"
    by (simp add: ReadWriteSingleUndo_def buf_init init_buf_def
        sci_SETCARETSTYLE_def sci_INSERTTEXT_def change_def beginUndoAction_def
        endUndoAction_def setReadOnly_def)
  from scoped_release [of "init_editor init_buf" ?body, OF ro bal] ro d0 c
  show ?thesis by simp
qed

section \<open>The position signal\<close>

lemma movement_plain_unindent:
  assumes "etext e = ''<''" "NUMSETKEYS (ekey e) = None"
    and "ekey e \<notin> {Key_Space, Key_Backspace, Key_Return}"
  shows "movement_plain E e m fr ci s = indent_branch (q_unindent E) fr s"
  using assms by (simp add: movement_plain_def movement_plain2_def Let_def)

lemma less_event_simps:
  "etext less_event = ''<''" "NUMSETKEYS (ekey less_event) = None"
  "ekey less_event \<notin> {Key_Space, Key_Backspace, Key_Return}" "plain_modifiers less_event"
  "eff_mods less_event = NoModifier"
  by (simp_all add: less_event_def NUMSETKEYS_def key_defs plain_modifiers_def eff_mods_def)

lemma getCursorPosition_abc: "getCursorPosition (buf (init_editor (buffer_at ''abc'' 0))) = (0, 0)"
  by (simp add: buf_init getCursorPosition_def lineIndexFromPosition_def buffer_at_def
      init_buf_def sci_SETCARETSTYLE_def setReadOnly_def)

text \<open>
  C10 (not met by the code).  The handler ends with ``check the cursor position; if
  changed, emit the positionChanged signal'', comparing with \<^verbatim>\<open>curLine\<close> and
  \<^verbatim>\<open>curIndex\<close> as read when the event arrived.  The loops of \<^verbatim>\<open>>\<close> and \<^verbatim>\<open><\<close>
  count \<^verbatim>\<open>curLine\<close> itself up.  So in Movement mode on the one-line buffer \<^verbatim>\<open>abc\<close>
  with the caret at line 0, column 0, the key \<^verbatim>\<open><\<close> (there is nothing to unindent:
  the buffer and the caret stay as they are) emits \<^verbatim>\<open>positionChanged(0, 0)\<close> although
  the position is the one from before.
\<close>

theorem position_signal_unindent:
  "getCursorPosition (buf (init_editor (buffer_at ''abc'' 0))) = (0, 0)
   \<and> getCursorPosition (buf (state_of
         (keyPressEvent idle_env less_event (init_editor (buffer_at ''abc'' 0))))) = (0, 0)
   \<and> content (buf (state_of
         (keyPressEvent idle_env less_event (init_editor (buffer_at ''abc'' 0))))) = ''abc''
   \<and> emitted (state_of
         (keyPressEvent idle_env less_event (init_editor (buffer_at ''abc'' 0))))
       = emitted (init_editor (buffer_at ''abc'' 0)) @ [PositionChanged 0 0]"
proof -
  let ?s = "init_editor (buffer_at ''abc'' 0)"
  have n: "getNumberPrefix False ?s = Some 1" by (simp add: getNumberPrefix_def)
  have d: "dispatch idle_env less_event ?s =
      Returned (\<lparr>process = False, clearnumberList = True, curLine = 1\<rparr>,
        on_buf (setReadOnly True) (on_buf endUndoAction
          (on_buf (setReadOnly False) (on_buf beginUndoAction ?s))))"
    by (simp add: dispatch_Movement movement_mode_def less_event_simps
        movement_plain_unindent [OF less_event_simps(1,2,3)] indent_branch_def n
        getCursorPosition_abc ReadWriteSingleUndo_def indent_loop_def idle_env_def on_buf_def)
  have b: "setReadOnly True (endUndoAction (setReadOnly False (beginUndoAction (buf ?s))))
      = buf ?s"
    by (simp add: buf_init buffer_at_def init_buf_def sci_SETCARETSTYLE_def setReadOnly_def
        beginUndoAction_def endUndoAction_def)
  let ?fr = "\<lparr>process = False, clearnumberList = True, curLine = 1\<rparr>"
  have k: "state_of (keyPressEvent idle_env less_event ?s)
      = epilogue idle_env less_event ?fr 0 (?s\<lparr>buf := buf ?s\<rparr>)"
    using getCursorPosition_abc by (simp add: keyPressEvent_def d b on_buf_def)
  have c: "getCursorPosition (buf (?s\<lparr>numberList := []\<rparr>)) = (0, 0)"
    using getCursorPosition_abc by simp
  have "buf (state_of (keyPressEvent idle_env less_event ?s)) = buf ?s"
    by (simp add: k epilogue_def Let_def emit_def split: prod.splits)
  moreover have "emitted (state_of (keyPressEvent idle_env less_event ?s))
      = emitted ?s @ [PositionChanged 0 0]"
    using c by (simp add: k epilogue_def Let_def emit_def)
  ultimately show ?thesis
    using getCursorPosition_abc by (simp add: buffer_at_def init_buf_def)
qed

section \<open>Replacing characters\<close>

lemma line_start_append:
  "l \<le> line_of xs (length xs) \<Longrightarrow> line_start (xs @ ys) l = line_start xs l"
proof (induction xs arbitrary: l)
  case Nil
  then show ?case by simp
next
  case (Cons c cs)
  show ?case
  proof (cases l)
    case 0
    then show ?thesis by simp
  next
    case (Suc k)
    with Cons.prems Cons.IH [of k] Cons.IH [of "Suc k"] show ?thesis
      by (auto simp: line_of_Cons split: if_splits)
  qed
qed

text \<open>The start of the caret's line depends on the text before the caret only.\<close>

lemma line_start_prefix:
  assumes "p \<le> length s"
  shows "line_start (take p s @ ys) (line_of s p) = line_start s (line_of s p)"
proof -
  have l: "line_of s p \<le> line_of (take p s) (length (take p s))"
    using assms by (simp add: line_of_def)
  have "line_start (take p s @ drop p s) (line_of s p) = line_start (take p s) (line_of s p)"
    by (rule line_start_append [OF l])
  moreover have "line_start (take p s @ ys) (line_of s p) = line_start (take p s) (line_of s p)"
    by (rule line_start_append [OF l])
  ultimately show ?thesis by simp
qed

lemma replace_step_props:
  assumes w: "\<not> readOnly b" and d: "undoDepth b \<noteq> 0" and q: "caret b < length (content b)"
  shows "content (replace_step [c] r b)
           = take (caret b) (content b) @ [c] @ drop (Suc (caret b)) (content b)
    \<and> caret (replace_step [c] r b) = (if 1 < r then Suc (caret b) else caret b)
    \<and> \<not> readOnly (replace_step [c] r b)
    \<and> undoDepth (replace_step [c] r b) = undoDepth b
    \<and> undoLog (replace_step [c] r b)
         = (if groupDirty b then undoLog b else content b # undoLog b)
    \<and> groupDirty (replace_step [c] r b)"
proof -
  let ?s = "content b" and ?q = "caret b"
  let ?l = "line_of ?s ?q"
  let ?i = "?q - line_start ?s ?l"
  have qle: "?q \<le> length ?s" using q by simp
  have ls: "line_start ?s ?l \<le> ?q" by (rule line_start_le [OF qle])
  have gp: "getCursorPosition b = (?l, ?i)"
    by (simp add: getCursorPosition_def lineIndexFromPosition_def Let_def)
  define b1 where "b1 = setSelection ?l ?i ?l (Suc ?i) b"
  have b1: "anchor b1 = ?q" "caret b1 = Suc ?q" "content b1 = ?s" "\<not> readOnly b1"
    "undoDepth b1 = undoDepth b" "undoLog b1 = undoLog b" "groupDirty b1 = groupDirty b"
    using q ls w by (simp_all add: b1_def setSelection_def positionFromLineIndex_def)
  let ?s2 = "take ?q ?s @ drop (Suc ?q) ?s"
  define b2 where "b2 = sci_CLEAR b1"
  have b2: "content b2 = ?s2" "caret b2 = ?q" "anchor b2 = ?q" "\<not> readOnly b2"
    "undoDepth b2 = undoDepth b"
    "undoLog b2 = (if groupDirty b then undoLog b else ?s # undoLog b)" "groupDirty b2"
    using b1 d by (simp_all add: b2_def sci_CLEAR_def clearSelection_def change_def Let_def)
  have ls2: "line_start ?s2 ?l = line_start ?s ?l"
    by (rule line_start_prefix [OF qle])
  have len2: "length ?s2 = length ?s - 1" using q by simp
  have p3: "positionFromLineIndex b2 ?l ?i = ?q"
    unfolding positionFromLineIndex_def b2(1) ls2 len2 using q ls by simp
  define b3 where "b3 = insertAt [c] ?l ?i b2"
  let ?s3 = "take ?q ?s @ [c] @ drop (Suc ?q) ?s"
  have b3: "content b3 = ?s3" "caret b3 = ?q" "\<not> readOnly b3"
    "undoDepth b3 = undoDepth b"
    "undoLog b3 = (if groupDirty b then undoLog b else ?s # undoLog b)" "groupDirty b3"
    using b2 q d
    by (simp_all add: b3_def insertAt_def Let_def p3 sci_INSERTTEXT_def change_def
        beginUndoAction_def endUndoAction_def setReadOnly_def)
  have ls3: "line_start ?s3 ?l = line_start ?s ?l"
    by (rule line_start_prefix [OF qle])
  have len3: "length ?s3 = length ?s" using q by simp
  have p4: "positionFromLineIndex b3 ?l (Suc ?i) = Suc ?q"
    unfolding positionFromLineIndex_def b3(1) ls3 len3 using q ls by simp
  define b4 where "b4 = setCursorPosition ?l (Suc ?i) b3"
  have b4: "content b4 = ?s3" "caret b4 = Suc ?q" "\<not> readOnly b4"
    "undoDepth b4 = undoDepth b"
    "undoLog b4 = (if groupDirty b then undoLog b else ?s # undoLog b)" "groupDirty b4"
    using b3 q
    by (simp_all add: b4_def setCursorPosition_def p4 sci_GOTOPOS_def Let_def len3
        del: append.simps)
  have "replace_step [c] r b = (if 1 < r then b4 else b3)"
    by (simp add: replace_step_def gp Let_def b4_def b3_def b2_def b1_def)
  with b3 b4 show ?thesis by (simp del: append.simps)
qed

lemma take_mid:
  "p + k \<le> length s \<Longrightarrow> take (p + k) (take p s @ replicate k c @ ys) = take p s @ replicate k c"
  by simp

lemma drop_mid:
  "p + k < length s \<Longrightarrow>
   drop (Suc (p + k)) (take p s @ replicate k c @ drop (p + k) s) = drop (Suc (p + k)) s"
  by simp

lemma replace_rounds:
  assumes w: "\<not> readOnly b" and d: "undoDepth b \<noteq> 0" and r: "1 < r"
    and k: "caret b + k \<le> length (content b)"
  shows "content ((replace_step [c] r ^^ k) b)
           = take (caret b) (content b) @ replicate k c @ drop (caret b + k) (content b)
    \<and> caret ((replace_step [c] r ^^ k) b) = caret b + k
    \<and> \<not> readOnly ((replace_step [c] r ^^ k) b)
    \<and> undoDepth ((replace_step [c] r ^^ k) b) = undoDepth b
    \<and> undoLog ((replace_step [c] r ^^ k) b)
         = (if groupDirty b \<or> k = 0 then undoLog b else content b # undoLog b)
    \<and> (0 < k \<longrightarrow> groupDirty ((replace_step [c] r ^^ k) b))"
  using k
proof (induction k)
  case 0
  then show ?case using w by simp
next
  case (Suc k)
  let ?p = "caret b" and ?s = "content b"
  let ?b = "(replace_step [c] r ^^ k) b"
  from Suc.prems have kk: "?p + k < length ?s" by simp
  with Suc.IH have ih: "content ?b = take ?p ?s @ replicate k c @ drop (?p + k) ?s"
    "caret ?b = ?p + k" "\<not> readOnly ?b" "undoDepth ?b = undoDepth b"
    "undoLog ?b = (if groupDirty b \<or> k = 0 then undoLog b else ?s # undoLog b)"
    "0 < k \<longrightarrow> groupDirty ?b"
    by simp_all
  have len: "length (content ?b) = length ?s" using kk by (simp add: ih(1))
  have q: "caret ?b < length (content ?b)" using kk by (simp add: ih(2) len)
  have d': "undoDepth ?b \<noteq> 0" using d by (simp add: ih(4))
  note st = replace_step_props [OF ih(3) d' q, of c r]
  have c1: "content (replace_step [c] r ?b)
      = take ?p ?s @ replicate (Suc k) c @ drop (?p + Suc k) ?s"
  proof -
    have "content (replace_step [c] r ?b)
        = take (?p + k) (content ?b) @ [c] @ drop (Suc (?p + k)) (content ?b)"
      using st by (simp add: ih(2))
    also have "take (?p + k) (content ?b) = take ?p ?s @ replicate k c"
      unfolding ih(1) using kk by (intro take_mid) simp
    also have "drop (Suc (?p + k)) (content ?b) = drop (Suc (?p + k)) ?s"
      unfolding ih(1) using kk by (intro drop_mid)
    finally show ?thesis by (simp add: replicate_append_same)
  qed
  have c2: "undoLog (replace_step [c] r ?b) = (if groupDirty b then undoLog b else ?s # undoLog b)"
  proof (cases "k = 0")
    case True
    then show ?thesis using st by simp
  next
    case False
    with ih(6) have "groupDirty ?b" by simp
    with st ih(5) False show ?thesis by simp
  qed
  from st r c1 c2 ih(2,4) show ?case by simp
qed

end
